theory Spec2Isabelle
  imports Main
begin

section \<open>The AWS controller of the attack range\<close>

text \<open>
  A shallow embedding of \<^verbatim>\<open>modules/aws_controller.py\<close>. The class \<^verbatim>\<open>AwsController\<close>
  sequences calls into collaborators that live outside the file (the AWS service module,
  terraform, packer, the Splunk SDK, the simulation controllers, the logger, standard
  output). Every such call is an \<^emph>\<open>event\<close>; a method takes the transcript of the events so
  far and returns its result together with the extended transcript. What a collaborator
  answers is given by an environment whose functions see the whole transcript up to the
  call, so an answer may depend on everything the controller did before (an image copied
  earlier may be available later).
\<close>

subsection \<open>Strings\<close>

text \<open>Python's \<^verbatim>\<open>s.startswith(p)\<close>.\<close>

definition startswith :: "string \<Rightarrow> string \<Rightarrow> bool" where
  "startswith s p = (take (length p) s = p)"

text \<open>The whitespace bytes that \<^verbatim>\<open>bytes.strip()\<close> removes at both ends.\<close>

definition isspace :: "char \<Rightarrow> bool" where
  "isspace c = (c \<in> set [CHR 0x20, CHR 0x09, CHR 0x0A, CHR 0x0D, CHR 0x0B, CHR 0x0C])"

definition strip :: "string \<Rightarrow> string" where
  "strip s = rev (dropWhile isspace (rev (dropWhile isspace s)))"

definition tab :: string where
  "tab = [CHR 0x09]"

text \<open>
  \<^verbatim>\<open>os.path.join(a, b)\<close> for two components on a POSIX system: an absolute second
  component replaces the first, an empty first component or one that ends in a slash takes
  no separator.
\<close>

definition os_path_join :: "string \<Rightarrow> string \<Rightarrow> string" where
  "os_path_join a b =
     (if startswith b ''/'' then b
      else if a = [] \<or> last a = CHR ''/'' then a @ b
      else a @ ''/'' @ b)"

subsection \<open>Data\<close>

text \<open>
  The configuration is a dictionary of sections, each a dictionary of string values; the
  controller reads a fixed set of keys. One field per key read, named section and key.
\<close>

record server =
  image :: string

record config =
  aws_region :: string
  aws_private_key_path :: string
  general_key_name :: string
  general_attack_range_name :: string
  general_attack_range_password :: string
  splunk_server_image :: string
  splunk_server_install_es :: string
  windows_servers :: "server list"
  linux_servers :: "server list"
  nginx_server_nginx_server :: string
  nginx_server_image :: string
  simulation_prelude :: string

text \<open>
  An instance as the inventory returns it. The controller reads
  \<^verbatim>\<open>instance['Tags'][0]['Value']\<close>, \<^verbatim>\<open>instance['State']['Name']\<close> and
  \<^verbatim>\<open>instance['NetworkInterfaces'][0]['Association']['PublicIp']\<close>: \<open>Tags\<close> holds the
  values of the tags, \<open>NetworkInterfaces\<close> holds for each interface the public address of
  its association, \<open>None\<close> for an interface that has no association.
\<close>

record ec2_instance =
  Tags :: "string list"
  State_Name :: string
  NetworkInterfaces :: "string option list"

text \<open>The non-empty answer of \<^verbatim>\<open>aws_service.ami_available_other_region\<close>.\<close>

record ami_location =
  region :: string
  image_id :: string

text \<open>The terraform handle that the constructor creates.\<close>

record terraform =
  working_dir :: string
  variables :: config
  parallelism :: nat

record controller =
  self_config :: config
  self_terraform :: terraform

datatype pyerror = IndexError | KeyError | OSError

text \<open>How a method ends: it returns, the process exits, or an exception leaves it.\<close>

datatype 'a result = Return 'a | SysExit int | Raise pyerror

text \<open>
  The transcript. A call whose answer the controller uses carries the answer as its last
  argument.
\<close>

datatype event =
    LogInfo string
  | LogError string
  | Print string
  | PrintBytes string
  | PrintTable "string list list" "string list"
  | CheckRegion string bool
  | AmiAvailable string string bool
  | AmiAvailableOtherRegion string "ami_location option"
  | CopyImage string string string string
  | Popen "string list"
  | TerraformApply int
  | TerraformDestroy int
  | GetAllInstances string string string "ec2_instance list"
  | ChangeEc2State "ec2_instance list" string string
  | ArtSimulate string string
  | PurplesharpSimulate string string string
  | ReadFile string "string option"
  | OpenWb string bool
  | GetSingleInstancePublicIp string string string string string
  | ExportSearch string string string string
  | CloseFile string

text \<open>
  The environment. \<open>popen_packer\<close> gives the behaviour of the started process: at the
  \<open>i\<close>-th round of the reading loop, the line that \<^verbatim>\<open>readline\<close> returns and what
  \<^verbatim>\<open>poll\<close> returns right after (\<open>None\<close> while the process runs). \<open>read_file\<close> and
  \<open>open_wb\<close> fail with \<open>None\<close> and \<open>False\<close>. \<open>module_dir\<close> is
  \<^verbatim>\<open>os.path.dirname(__file__)\<close>.
\<close>

record env =
  check_region :: "event list \<Rightarrow> string \<Rightarrow> bool"
  ami_available :: "event list \<Rightarrow> string \<Rightarrow> string \<Rightarrow> bool"
  ami_available_other_region :: "event list \<Rightarrow> string \<Rightarrow> ami_location option"
  popen_packer :: "event list \<Rightarrow> string list \<Rightarrow> nat \<Rightarrow> string \<times> int option"
  terraform_apply :: "event list \<Rightarrow> int"
  terraform_destroy :: "event list \<Rightarrow> int"
  get_all_instances :: "event list \<Rightarrow> string \<Rightarrow> string \<Rightarrow> string \<Rightarrow> ec2_instance list"
  get_single_instance_public_ip ::
    "event list \<Rightarrow> string \<Rightarrow> string \<Rightarrow> string \<Rightarrow> string \<Rightarrow> string"
  read_file :: "event list \<Rightarrow> string \<Rightarrow> string option"
  open_wb :: "event list \<Rightarrow> string \<Rightarrow> bool"
  module_dir :: string

subsection \<open>stop, resume, simulate, destroy\<close>

text \<open>
  \<^verbatim>\<open>stop\<close> and \<^verbatim>\<open>resume\<close>: the inventory query, then the state change on the
  instances the query returned.
\<close>

definition stop :: "env \<Rightarrow> controller \<Rightarrow> event list \<Rightarrow> unit result \<times> event list" where
  "stop e self tr =
     (let c = self_config self;
          instances = get_all_instances e tr (general_key_name c)
                        (general_attack_range_name c) (aws_region c);
          tr1 = tr @ [GetAllInstances (general_key_name c) (general_attack_range_name c)
                        (aws_region c) instances];
          tr2 = tr1 @ [ChangeEc2State instances ''stopped'' (aws_region c)]
      in (Return (), tr2))"

definition resume :: "env \<Rightarrow> controller \<Rightarrow> event list \<Rightarrow> unit result \<times> event list" where
  "resume e self tr =
     (let c = self_config self;
          instances = get_all_instances e tr (general_key_name c)
                        (general_attack_range_name c) (aws_region c);
          tr1 = tr @ [GetAllInstances (general_key_name c) (general_attack_range_name c)
                        (aws_region c) instances];
          tr2 = tr1 @ [ChangeEc2State instances ''running'' (aws_region c)]
      in (Return (), tr2))"

text \<open>
  \<^verbatim>\<open>simulate\<close>: two independent \<^verbatim>\<open>if\<close> statements, one per engine. \<open>ArtSimulate\<close>
  and \<open>PurplesharpSimulate\<close> stand for creating the simulation controller from the
  configuration and calling its \<^verbatim>\<open>simulate\<close>.
\<close>

definition simulate ::
  "env \<Rightarrow> controller \<Rightarrow> string \<Rightarrow> string \<Rightarrow> string \<Rightarrow> string \<Rightarrow> event list
     \<Rightarrow> unit result \<times> event list" where
  "simulate e self engine target technique playbook tr =
     (let tr1 = tr @ [LogInfo ''[action] > simulate\<newline>''];
          tr2 = (if engine = ''ART'' then tr1 @ [ArtSimulate target technique] else tr1);
          tr3 = (if engine = ''PurpleSharp''
                 then tr2 @ [PurplesharpSimulate target technique playbook] else tr2)
      in (Return (), tr3))"

definition destroy :: "env \<Rightarrow> controller \<Rightarrow> event list \<Rightarrow> unit result \<times> event list" where
  "destroy e self tr =
     (let tr1 = tr @ [LogInfo ''[action] > destroy\<newline>''];
          return_code = terraform_destroy e tr1;
          tr2 = tr1 @ [TerraformDestroy return_code];
          tr3 = tr2 @ [LogInfo ''attack_range has been destroy using terraform successfully'']
      in (Return (), tr3))"

subsection \<open>The constructor\<close>

text \<open>
  Modelled from the spec: the base class \<^verbatim>\<open>AttackRangeController\<close> is not among the
  sources. Its constructor, called first, is taken to store the configuration that every
  method reads as \<^verbatim>\<open>self.config\<close> and to create the logger, and to call nothing else.

  \<^verbatim>\<open>__init__\<close> then asks the AWS service module whether the region of the AWS command
  line is the region of the configuration; if not it logs an error and exits with code 1,
  otherwise it creates the terraform handle.
\<close>

definition init :: "env \<Rightarrow> config \<Rightarrow> event list \<Rightarrow> controller result \<times> event list" where
  "init e cfg tr =
     (let same = check_region e tr (aws_region cfg);
          tr1 = tr @ [CheckRegion (aws_region cfg) same]
      in if \<not> same
         then (SysExit 1,
               tr1 @ [LogError ''AWS cli region and region in config file are not the same.''])
         else (let wd = os_path_join (module_dir e) ''../terraform/aws''
               in (Return \<lparr>self_config = cfg,
                           self_terraform =
                             \<lparr>working_dir = wd, variables = cfg, parallelism = 15\<rparr>\<rparr>,
                   tr1)))"

subsection \<open>packer\<close>

text \<open>
  The \<^verbatim>\<open>if\<close>/\<^verbatim>\<open>elif\<close> chain of \<^verbatim>\<open>packer\<close> that sets \<^verbatim>\<open>only_cmd_arg\<close> and
  \<^verbatim>\<open>path_packer_file\<close>, both empty at the start.
\<close>

definition packer_select :: "string \<Rightarrow> string \<times> string" where
  "packer_select image_name =
     (if startswith image_name ''splunk''
      then (''amazon-ebs.splunk-ubuntu-18-04'', ''packer/splunk_server/splunk-ubuntu.pkr.hcl'')
      else if startswith image_name ''linux''
      then (''amazon-ebs.ubuntu-18-04'', ''packer/linux_server/linux-ubuntu-18-04.pkr.hcl'')
      else if startswith image_name ''nginx''
      then (''amazon-ebs.nginx-web-proxy'', ''packer/nginx_server/nginx_web_proxy.pkr.hcl'')
      else if startswith image_name ''windows-2016''
      then (''amazon-ebs.windows'', ''packer/windows_server/windows_2016.pkr.hcl'')
      else if startswith image_name ''windows-2019''
      then (''amazon-ebs.windows'', ''packer/windows_server/windows_2019.pkr.hcl'')
      else ([], []))"

text \<open>
  The reading loop: \<^verbatim>\<open>readline\<close>, then \<^verbatim>\<open>poll\<close>; the loop ends when the process
  has ended, otherwise a non-empty line is printed stripped. The loop runs as long as the
  process does, so it is a partial function: \<open>None\<close> is a loop that never ends.
\<close>

partial_function (option) read_output ::
  "(nat \<Rightarrow> string \<times> int option) \<Rightarrow> nat \<Rightarrow> event list \<Rightarrow> event list option" where
  "read_output process i tr =
     (case process i of
        (output, polled) \<Rightarrow>
          if polled \<noteq> None then Some tr
          else read_output process (Suc i)
                 (if output \<noteq> [] then tr @ [PrintBytes (strip output)] else tr))"

definition create_msg :: "string \<Rightarrow> string" where
  "create_msg image_name =
     ''Create golden image for '' @ image_name @ ''. This can take up to 30 minutes.\<newline>''"

definition packer_argv :: "string \<Rightarrow> string \<Rightarrow> string list" where
  "packer_argv only_cmd_arg path_packer_file =
     [''packer'', ''build'', ''-force'', ''-only='' @ only_cmd_arg, path_packer_file]"

definition packer ::
  "env \<Rightarrow> controller \<Rightarrow> string \<Rightarrow> event list \<Rightarrow> (unit result \<times> event list) option" where
  "packer e self image_name tr =
     (let tr1 = tr @ [LogInfo (create_msg image_name)];
          (only_cmd_arg, path_packer_file) = packer_select image_name
      in if only_cmd_arg = []
         then Some (SysExit 1, tr1 @ [LogError ''Image not supported.''])
         else (let argv = packer_argv only_cmd_arg path_packer_file;
                   process = popen_packer e tr1 argv;
                   tr2 = tr1 @ [Popen argv]
               in case read_output process 0 tr2 of
                    None \<Rightarrow> None
                  | Some tr3 \<Rightarrow> Some (Return (), tr3)))"

subsection \<open>show\<close>

definition tag0_value :: "ec2_instance \<Rightarrow> pyerror + string" where
  "tag0_value i = (case Tags i of [] \<Rightarrow> Inl IndexError | v # _ \<Rightarrow> Inr v)"

definition public_ip :: "ec2_instance \<Rightarrow> pyerror + string" where
  "public_ip i =
     (case NetworkInterfaces i of
        [] \<Rightarrow> Inl IndexError
      | None # _ \<Rightarrow> Inl KeyError
      | Some ip # _ \<Rightarrow> Inr ip)"

text \<open>The local variables of \<^verbatim>\<open>show\<close> that its loop updates.\<close>

record show_vars =
  response :: "string list list"
  messages :: "string list"
  instances_running :: bool
  splunk_ip :: string

definition ssh_line :: "config \<Rightarrow> string \<Rightarrow> string \<Rightarrow> string" where
  "ssh_line c user ip =
     ''\<newline>'' @ tab @ ''SSH > ssh -i'' @ aws_private_key_path c @ '' '' @ user @ ''@'' @ ip"

definition login_lines :: "config \<Rightarrow> string \<Rightarrow> string" where
  "login_lines c user =
     ''\<newline>'' @ tab @ ''username: '' @ user @ '' \<newline>'' @ tab @ ''password: ''
       @ general_attack_range_password c"

text \<open>The message that the loop appends for a running instance, by the prefix of its name.\<close>

definition access_message :: "config \<Rightarrow> string \<Rightarrow> string \<Rightarrow> string option" where
  "access_message c instance_name ip =
     (if startswith instance_name ''ar-splunk'' then
        (if splunk_server_install_es c = ''1''
         then Some (''\<newline>Access Splunk via:\<newline>'' @ tab @ ''Web > https://'' @ ip @ '':8000''
                      @ ssh_line c ''ubuntu'' ip @ login_lines c ''admin'')
         else Some (''\<newline>Access Splunk via:\<newline>'' @ tab @ ''Web > http://'' @ ip @ '':8000''
                      @ ssh_line c ''ubuntu'' ip @ login_lines c ''admin''))
      else if startswith instance_name ''ar-phantom'' then
        Some (''\<newline>Access Phantom via:\<newline>'' @ tab @ ''Web > https://'' @ ip
                @ ssh_line c ''centos'' ip @ login_lines c ''admin'')
      else if startswith instance_name ''ar-win'' then
        Some (''\<newline>Access Windows via:\<newline>'' @ tab @ ''RDP > rdp://'' @ ip @ '':3389''
                @ login_lines c ''Administrator'')
      else if startswith instance_name ''ar-linux'' then
        Some (''\<newline>Access Linux via:'' @ ssh_line c ''ubuntu'' ip @ login_lines c ''ubuntu'')
      else if startswith instance_name ''ar-kali'' then
        Some (''\<newline>Access Kali via:'' @ ssh_line c ''kali'' ip @ login_lines c ''kali'')
      else if startswith instance_name ''ar-nginx'' then
        Some (''\<newline>Access Nginx Web Proxy via:'' @ ssh_line c ''ubuntu'' ip
                @ login_lines c ''kali'')
      else None)"

text \<open>
  One round of the loop of \<^verbatim>\<open>show\<close>. Reading the first tag or the public address of
  an instance that has none raises, and the exception leaves \<^verbatim>\<open>show\<close>.
\<close>

definition show_instance :: "config \<Rightarrow> show_vars \<Rightarrow> ec2_instance \<Rightarrow> pyerror + show_vars" where
  "show_instance c v i =
     (if State_Name i = ''running'' then
        (case tag0_value i of
           Inl err \<Rightarrow> Inl err
         | Inr instance_name \<Rightarrow>
             (case public_ip i of
                Inl err \<Rightarrow> Inl err
              | Inr ip \<Rightarrow>
                  (let v1 = v\<lparr>instances_running := True,
                              response := response v @ [[instance_name, State_Name i, ip]]\<rparr>;
                       v2 = (if startswith instance_name ''ar-splunk''
                             then v1\<lparr>splunk_ip := ip\<rparr> else v1)
                   in case access_message c instance_name ip of
                        Some msg \<Rightarrow> Inr (v2\<lparr>messages := messages v2 @ [msg]\<rparr>)
                      | None \<Rightarrow> Inr v2)))
      else
        (case tag0_value i of
           Inl err \<Rightarrow> Inl err
         | Inr instance_name \<Rightarrow>
             Inr (v\<lparr>response := response v @ [[instance_name, State_Name i]]\<rparr>)))"

fun show_loop :: "config \<Rightarrow> ec2_instance list \<Rightarrow> show_vars \<Rightarrow> pyerror + show_vars" where
  "show_loop c [] v = Inr v"
| "show_loop c (i # instances) v =
     (case show_instance c v i of
        Inl err \<Rightarrow> Inl err
      | Inr v' \<Rightarrow> show_loop c instances v')"

definition get_prelude_token :: "env \<Rightarrow> string \<Rightarrow> event list \<Rightarrow> string \<times> event list" where
  "get_prelude_token e token_path tr =
     (let content = read_file e tr token_path;
          tr1 = tr @ [ReadFile token_path content]
      in case content of
           Some token \<Rightarrow> (token, tr1)
         | None \<Rightarrow>
             ([], tr1 @ [LogError (''was not able to read prelude token from '' @ token_path)]))"

definition prelude_message :: "string \<Rightarrow> string \<Rightarrow> string" where
  "prelude_message ip prelude_token =
     ''\<newline>Access Prelude Operator UI via:\<newline>'' @ tab @ ''redirector FQDN > '' @ ip
       @ ''\<newline>'' @ tab @ ''Token: '' @ prelude_token @ ''\<newline>'' @ tab
       @ ''See guide details: https://github.com/splunk/attack_range/wiki/Prelude-Operator''"

definition not_found_msg :: string where
  "not_found_msg = ''ERROR: Can't find configured Attack Range Instances''"

definition show_print :: "show_vars \<Rightarrow> string list \<Rightarrow> event list" where
  "show_print v msgs =
     [Print [], Print ''Status Virtual Machines\<newline>''] @
     (if length (response v) > 0 then
        (if instances_running v
         then PrintTable (response v) [''Name'', ''Status'', ''IP Address''] # map Print msgs
         else [PrintTable (response v) [''Name'', ''Status'']])
        @ [Print []]
      else [Print not_found_msg])"

definition "show" :: "env \<Rightarrow> controller \<Rightarrow> event list \<Rightarrow> unit result \<times> event list" where
  "show e self tr =
     (let c = self_config self;
          tr1 = tr @ [LogInfo ''[action] > show\<newline>''];
          instances = get_all_instances e tr1 (general_key_name c)
                        (general_attack_range_name c) (aws_region c);
          tr2 = tr1 @ [GetAllInstances (general_key_name c) (general_attack_range_name c)
                        (aws_region c) instances]
      in case show_loop c instances
                \<lparr>response = [], messages = [], instances_running = False, splunk_ip = []\<rparr> of
           Inl err \<Rightarrow> (Raise err, tr2)
         | Inr v \<Rightarrow>
             (if simulation_prelude c = ''1''
              then (let (prelude_token, tr3) =
                          get_prelude_token e ''/var/tmp/.prelude_session_token'' tr2
                    in (Return (),
                        tr3 @ show_print v
                                (messages v @ [prelude_message (splunk_ip v) prelude_token])))
              else (Return (), tr2 @ show_print v (messages v))))"

subsection \<open>build\<close>

text \<open>
  The list \<^verbatim>\<open>images\<close> that \<^verbatim>\<open>build\<close> assembles: it starts empty and grows by
  \<^verbatim>\<open>append\<close>, once for the Splunk server, in a loop for the Windows servers, in a loop
  for the Linux servers, and once more when the nginx switch is the string \<open>1\<close>.
\<close>

definition build_image_list :: "config \<Rightarrow> string list" where
  "build_image_list c =
     (let images0 = [];
          images1 = images0 @ [splunk_server_image c];
          images2 = foldl (\<lambda>images windows_server. images @ [image windows_server])
                      images1 (windows_servers c);
          images3 = foldl (\<lambda>images linux_server. images @ [image linux_server])
                      images2 (linux_servers c)
      in if nginx_server_nginx_server c = ''1''
         then images3 @ [nginx_server_image c] else images3)"

text \<open>The body of the loop over \<^verbatim>\<open>images\<close>.\<close>

definition build_image ::
  "env \<Rightarrow> controller \<Rightarrow> string \<Rightarrow> event list \<Rightarrow> (unit result \<times> event list) option" where
  "build_image e self img tr =
     (let r = aws_region (self_config self);
          available = ami_available e tr img r;
          tr1 = tr @ [AmiAvailable img r available]
      in if \<not> available then
           (let tr2 = tr1 @ [LogInfo (''Image '' @ img @ '' is not available in region '' @ r),
                             LogInfo (''Checking if image '' @ img
                                        @ '' is available in other regions.'')];
                result = ami_available_other_region e tr2 img;
                tr3 = tr2 @ [AmiAvailableOtherRegion img result]
            in case result of
                 Some found \<Rightarrow>
                   Some (Return (),
                         tr3 @ [LogInfo (''Found image '' @ img @ '' in region '' @ region found
                                           @ ''. Copy it to region '' @ r),
                                CopyImage img (image_id found) (region found) r])
               | None \<Rightarrow>
                   packer e self img
                     (tr3 @ [LogInfo (''Image '' @ img @ '' need to be built with packer.'')]))
         else Some (Return (),
                    tr1 @ [LogInfo (''Image '' @ img @ '' is available in region '' @ r)]))"

text \<open>The loop: an exit of the process inside \<^verbatim>\<open>packer\<close> ends it.\<close>

fun build_images ::
  "env \<Rightarrow> controller \<Rightarrow> string list \<Rightarrow> event list \<Rightarrow> (unit result \<times> event list) option" where
  "build_images e self [] tr = Some (Return (), tr)"
| "build_images e self (img # images) tr =
     (case build_image e self img tr of
        None \<Rightarrow> None
      | Some (Return u, tr') \<Rightarrow> build_images e self images tr'
      | Some (ended, tr') \<Rightarrow> Some (ended, tr'))"

definition built_msg :: string where
  "built_msg = ''attack_range has been built using terraform successfully''"

definition build ::
  "env \<Rightarrow> controller \<Rightarrow> event list \<Rightarrow> (unit result \<times> event list) option" where
  "build e self tr =
     (let c = self_config self;
          tr1 = tr @ [LogInfo ''[action] > build\<newline>''];
          images = build_image_list c;
          tr2 = tr1 @ [LogInfo (''Check if images are available in region '' @ aws_region c)]
      in case build_images e self images tr2 of
           None \<Rightarrow> None
         | Some (Return u, tr3) \<Rightarrow>
             (let return_code = terraform_apply e tr3;
                  tr4 = tr3 @ [TerraformApply return_code];
                  tr5 = (if return_code = 0 then tr4 @ [LogInfo built_msg] else tr4)
              in Some (show e self tr5))
         | Some (ended, tr3) \<Rightarrow> Some (ended, tr3))"

subsection \<open>dump\<close>

text \<open>
  \<^verbatim>\<open>dump\<close> opens the output file for writing before it asks for the address of the
  Splunk server; an \<^verbatim>\<open>open\<close> that fails raises, and the exception leaves \<^verbatim>\<open>dump\<close>.
  \<open>ExportSearch\<close> carries the host, the search, the password and the path of the open
  output file.
\<close>

definition dump ::
  "env \<Rightarrow> controller \<Rightarrow> string \<Rightarrow> string \<Rightarrow> string \<Rightarrow> string \<Rightarrow> event list
     \<Rightarrow> unit result \<times> event list" where
  "dump e self dump_name search earliest latest tr =
     (let c = self_config self;
          tr1 = tr @ [LogInfo ''Dump log data''];
          dump_search = ''search '' @ search @ '' earliest=-'' @ earliest @ '' latest='' @ latest
                          @ '' | sort 0 _time'';
          tr2 = tr1 @ [LogInfo (''Dumping Splunk Search: '' @ dump_search)];
          path = os_path_join (module_dir e) (''../'' @ dump_name);
          opened = open_wb e tr2 path;
          tr3 = tr2 @ [OpenWb path opened]
      in if \<not> opened then (Raise OSError, tr3)
         else (let splunk_instance = ''ar-splunk-'' @ general_key_name c @ ''-''
                                       @ general_attack_range_name c;
                   ip = get_single_instance_public_ip e tr3 splunk_instance (general_key_name c)
                          (general_attack_range_name c) (aws_region c);
                   tr4 = tr3 @ [GetSingleInstancePublicIp splunk_instance (general_key_name c)
                                  (general_attack_range_name c) (aws_region c) ip];
                   tr5 = tr4 @ [ExportSearch ip dump_search (general_attack_range_password c) path];
                   tr6 = tr5 @ [CloseFile path];
                   tr7 = tr6 @ [LogInfo ''[Completed]'']
               in (Return (), tr7)))"

section \<open>Reading a transcript\<close>

text \<open>
  The events that a method added to the transcript \<open>tr\<close> it was given.
\<close>

definition new_events :: "event list \<Rightarrow> event list \<Rightarrow> event list" where
  "new_events tr tr' = drop (length tr) tr'"

text \<open>
  The same event with another target state, when it is a state change.
\<close>

fun retarget :: "string \<Rightarrow> event \<Rightarrow> event" where
  "retarget s (ChangeEc2State xs _ r) = ChangeEc2State xs s r"
| "retarget s ev = ev"

definition destroyed_msg :: string where
  "destroyed_msg = ''attack_range has been destroy using terraform successfully''"

text \<open>
  The events of the image decision tree: the availability check in the configured region,
  the query of the other regions, the copy, and the start of the packer process.
\<close>

definition is_sourcing :: "event \<Rightarrow> bool" where
  "is_sourcing ev =
     (case ev of
        AmiAvailable _ _ _ \<Rightarrow> True
      | AmiAvailableOtherRegion _ _ \<Rightarrow> True
      | CopyImage _ _ _ _ \<Rightarrow> True
      | Popen _ \<Rightarrow> True
      | _ \<Rightarrow> False)"

definition sourcing :: "event list \<Rightarrow> event list" where
  "sourcing tr = filter is_sourcing tr"

text \<open>
  The images whose availability was checked, each with the region asked, in order.
\<close>

definition checked :: "event list \<Rightarrow> (string \<times> string) list" where
  "checked tr = concat (map (\<lambda>ev. case ev of AmiAvailable i r a \<Rightarrow> [(i, r)] | _ \<Rightarrow> []) tr)"

text \<open>
  The return codes of the terraform apply calls of a transcript.
\<close>

definition apply_codes :: "event list \<Rightarrow> int list" where
  "apply_codes tr = concat (map (\<lambda>ev. case ev of TerraformApply rc \<Rightarrow> [rc] | _ \<Rightarrow> []) tr)"

text \<open>
  The events that report on terraform apply: the call with its return code and the success
  message of \<^verbatim>\<open>build\<close>.
\<close>

definition reports :: "event \<Rightarrow> bool" where
  "reports ev = (case ev of TerraformApply _ \<Rightarrow> True | LogInfo s \<Rightarrow> s = built_msg | _ \<Rightarrow> False)"

definition outcome_report :: "event list \<Rightarrow> event list" where
  "outcome_report tr = filter reports tr"

section \<open>What the methods are expected to do\<close>

subsection \<open>Image families\<close>

text \<open>
  One image family per prefix of the image name, with the builder target and the template
  file of the family.
\<close>

definition families :: "(string \<times> string \<times> string) list" where
  "families =
     [(''splunk'', ''amazon-ebs.splunk-ubuntu-18-04'', ''packer/splunk_server/splunk-ubuntu.pkr.hcl''),
      (''linux'', ''amazon-ebs.ubuntu-18-04'', ''packer/linux_server/linux-ubuntu-18-04.pkr.hcl''),
      (''nginx'', ''amazon-ebs.nginx-web-proxy'', ''packer/nginx_server/nginx_web_proxy.pkr.hcl''),
      (''windows-2016'', ''amazon-ebs.windows'', ''packer/windows_server/windows_2016.pkr.hcl''),
      (''windows-2019'', ''amazon-ebs.windows'', ''packer/windows_server/windows_2019.pkr.hcl'')]"

definition family_of :: "string \<Rightarrow> (string \<times> string \<times> string) option" where
  "family_of image_name = find (\<lambda>(p, target, template). startswith image_name p) families"

text \<open>
  The command line of the image builder for an image, when its family is known.
\<close>

definition builder_command :: "string \<Rightarrow> string list option" where
  "builder_command img =
     (case family_of img of
        None \<Rightarrow> None
      | Some (p, target, template) \<Rightarrow>
          Some [''packer'', ''build'', ''-force'', ''-only='' @ target, template])"

text \<open>
  The process ends at round \<open>n\<close> of the reading loop: \<^verbatim>\<open>poll\<close> answers there for
  the first time. \<open>streamed process i n\<close> are the lines printed in the \<open>n\<close> rounds from
  round \<open>i\<close> on: the non-empty lines read, stripped. \<open>processes_end\<close> says that every
  process that the environment starts ends.
\<close>

definition exits_at :: "(nat \<Rightarrow> string \<times> int option) \<Rightarrow> nat \<Rightarrow> bool" where
  "exits_at process n =
     (snd (process n) \<noteq> None \<and> list_all (\<lambda>j. snd (process j) = None) [0..<n])"

definition streamed :: "(nat \<Rightarrow> string \<times> int option) \<Rightarrow> nat \<Rightarrow> nat \<Rightarrow> string list" where
  "streamed process i n = map strip (filter (\<lambda>l. l \<noteq> []) (map (\<lambda>j. fst (process j)) [i..<i + n]))"

definition processes_end :: "env \<Rightarrow> bool" where
  "processes_end e = (\<forall>tr argv. \<exists>n. snd (popen_packer e tr argv n) \<noteq> None)"

subsection \<open>The decision tree of the images\<close>

text \<open>
  A transcript records the answers of the environment: an availability check and a query of
  the other regions carry what the environment answers on the transcript before them.
  \<open>honest e hist evs\<close> says so for the events \<open>evs\<close> that follow \<open>hist\<close>.
\<close>

definition answer_ok :: "env \<Rightarrow> event list \<Rightarrow> event \<Rightarrow> bool" where
  "answer_ok e hist ev =
     (case ev of
        AmiAvailable i r available \<Rightarrow> available = ami_available e hist i r
      | AmiAvailableOtherRegion i result \<Rightarrow> result = ami_available_other_region e hist i
      | _ \<Rightarrow> True)"

fun honest :: "env \<Rightarrow> event list \<Rightarrow> event list \<Rightarrow> bool" where
  "honest e hist [] = True"
| "honest e hist (ev # evs) = (answer_ok e hist ev \<and> honest e (hist @ [ev]) evs)"

definition is_answer :: "event \<Rightarrow> bool" where
  "is_answer ev =
     (case ev of AmiAvailable _ _ _ \<Rightarrow> True | AmiAvailableOtherRegion _ _ \<Rightarrow> True | _ \<Rightarrow> False)"

text \<open>
  \<open>follows_tree r images evs\<close>: the decision-tree events \<open>evs\<close> are those of a loop over
  \<open>images\<close> in the region \<open>r\<close>. Each image is checked in \<open>r\<close>. An available image
  has no further event. For an image that is not available the other regions are queried
  next; when the image was found there, it is copied from where it was found into \<open>r\<close>
  and nothing else happens; when it was not found, the builder of the image's family is
  started, or, for an image of no family, the transcript ends there (the process has
  exited).
\<close>

fun follows_tree :: "string \<Rightarrow> string list \<Rightarrow> event list \<Rightarrow> bool" where
  "follows_tree r [] evs = (evs = [])"
| "follows_tree r (img # images) evs =
     (case evs of
        AmiAvailable i1 r1 available # evs1 \<Rightarrow>
          i1 = img \<and> r1 = r \<and>
          (if available then follows_tree r images evs1
           else (case evs1 of
                   AmiAvailableOtherRegion i2 result # evs2 \<Rightarrow>
                     i2 = img \<and>
                     (case result of
                        Some found \<Rightarrow>
                          (case evs2 of
                             CopyImage i3 src_id src_region dst # evs3 \<Rightarrow>
                               i3 = img \<and> src_id = image_id found \<and> src_region = region found
                               \<and> dst = r \<and> follows_tree r images evs3
                           | _ \<Rightarrow> False)
                      | None \<Rightarrow>
                          (case evs2 of
                             Popen argv # evs3 \<Rightarrow>
                               builder_command img = Some argv \<and> follows_tree r images evs3
                           | [] \<Rightarrow> builder_command img = None
                           | _ \<Rightarrow> False))
                 | _ \<Rightarrow> False))
      | _ \<Rightarrow> False)"

subsection \<open>The inventory table\<close>

text \<open>
  An instance is well formed when it has a tag and, if it is running, a public address on
  its first network interface; \<open>name_of\<close> and \<open>address_of\<close> read the two. A running
  instance has a row of name, state and address, any other instance a row of name and
  state. A running instance whose name has one of the six known prefixes has one
  connection message, any other instance none.
\<close>

definition running :: "ec2_instance \<Rightarrow> bool" where
  "running i = (State_Name i = ''running'')"

definition well_formed :: "ec2_instance \<Rightarrow> bool" where
  "well_formed i =
     (Tags i \<noteq> [] \<and>
      (if running i then (case NetworkInterfaces i of Some ip # _ \<Rightarrow> True | _ \<Rightarrow> False)
       else True))"

definition name_of :: "ec2_instance \<Rightarrow> string" where
  "name_of i = hd (Tags i)"

definition address_of :: "ec2_instance \<Rightarrow> string" where
  "address_of i = the (hd (NetworkInterfaces i))"

definition inventory_row :: "ec2_instance \<Rightarrow> string list" where
  "inventory_row i =
     (if running i then [name_of i, State_Name i, address_of i]
      else [name_of i, State_Name i])"

definition recognized :: "string \<Rightarrow> bool" where
  "recognized instance_name =
     list_ex (startswith instance_name)
       [''ar-splunk'', ''ar-phantom'', ''ar-win'', ''ar-linux'', ''ar-kali'', ''ar-nginx'']"

text \<open>
  The connection messages: for each known prefix the product named in the heading and the
  lines under it, each line on its own after a tab. The address is \<open>ip\<close>; the key file
  and the password come from the configuration.
\<close>

definition connection_table :: "config \<Rightarrow> string \<Rightarrow> (string \<times> string \<times> string list) list" where
  "connection_table c ip =
     [(''ar-splunk'', ''Splunk'',
       [''Web > '' @ (if splunk_server_install_es c = ''1'' then ''https'' else ''http'')
          @ ''://'' @ ip @ '':8000'',
        ''SSH > ssh -i'' @ aws_private_key_path c @ '' ubuntu@'' @ ip,
        ''username: admin '',
        ''password: '' @ general_attack_range_password c]),
      (''ar-phantom'', ''Phantom'',
       [''Web > https://'' @ ip,
        ''SSH > ssh -i'' @ aws_private_key_path c @ '' centos@'' @ ip,
        ''username: admin '',
        ''password: '' @ general_attack_range_password c]),
      (''ar-win'', ''Windows'',
       [''RDP > rdp://'' @ ip @ '':3389'',
        ''username: Administrator '',
        ''password: '' @ general_attack_range_password c]),
      (''ar-linux'', ''Linux'',
       [''SSH > ssh -i'' @ aws_private_key_path c @ '' ubuntu@'' @ ip,
        ''username: ubuntu '',
        ''password: '' @ general_attack_range_password c]),
      (''ar-kali'', ''Kali'',
       [''SSH > ssh -i'' @ aws_private_key_path c @ '' kali@'' @ ip,
        ''username: kali '',
        ''password: '' @ general_attack_range_password c]),
      (''ar-nginx'', ''Nginx Web Proxy'',
       [''SSH > ssh -i'' @ aws_private_key_path c @ '' ubuntu@'' @ ip,
        ''username: kali '',
        ''password: '' @ general_attack_range_password c])]"

definition connection_message :: "config \<Rightarrow> string \<Rightarrow> string \<Rightarrow> string option" where
  "connection_message c instance_name ip =
     map_option
       (\<lambda>(p, product, lines).
          ''\<newline>Access '' @ product @ '' via:''
            @ concat (map (\<lambda>l. [CHR 0x0A, CHR 0x09] @ l) lines))
       (find (\<lambda>(p, product, lines). startswith instance_name p) (connection_table c ip))"

definition connection_info :: "config \<Rightarrow> ec2_instance \<Rightarrow> string list" where
  "connection_info c i =
     (if running i
      then (case connection_message c (name_of i) (address_of i) of
              Some msg \<Rightarrow> [msg]
            | None \<Rightarrow> [])
      else [])"

text \<open>
  The address in the Prelude message: that of the last running Splunk server. Then the
  printed part of \<^verbatim>\<open>show\<close>: the heading, and either the error line for an empty
  inventory or the table, followed by the messages when an instance is running.
\<close>

definition splunk_address :: "ec2_instance list \<Rightarrow> string" where
  "splunk_address instances =
     (case filter (\<lambda>i. running i \<and> startswith (name_of i) ''ar-splunk'') instances of
        [] \<Rightarrow> []
      | found \<Rightarrow> address_of (last found))"

definition rendering :: "config \<Rightarrow> ec2_instance list \<Rightarrow> string list \<Rightarrow> event list" where
  "rendering c instances extra =
     [Print [], Print ''Status Virtual Machines\<newline>''] @
     (if instances = [] then [Print ''ERROR: Can't find configured Attack Range Instances'']
      else if list_ex running instances
      then [PrintTable (map inventory_row instances) [''Name'', ''Status'', ''IP Address'']]
           @ map Print (concat (map (connection_info c) instances) @ extra)
           @ [Print []]
      else [PrintTable (map inventory_row instances) [''Name'', ''Status''], Print []])"

section \<open>An example range\<close>

text \<open>
  A configuration with one Windows and one Linux server and the nginx proxy, and an
  environment in which the Splunk and nginx images are available, the Windows image is
  found in another region, and the Linux image has to be built; the packer process prints
  one line, reads an empty line and ends. Two instances are provisioned.
\<close>

definition example_config :: config where
  "example_config =
     \<lparr>aws_region = ''eu-central-1'',
      aws_private_key_path = ''~/.ssh/id_rsa'',
      general_key_name = ''attack-range-key-pair'',
      general_attack_range_name = ''default'',
      general_attack_range_password = ''Pl3ase-k1Ll-me:p'',
      splunk_server_image = ''splunk-v2-0-0'',
      splunk_server_install_es = ''0'',
      windows_servers = [\<lparr>image = ''windows-2016-v2-0-0''\<rparr>],
      linux_servers = [\<lparr>image = ''linux-v2-0-0''\<rparr>],
      nginx_server_nginx_server = ''1'',
      nginx_server_image = ''nginx-web-proxy-v2-0-0'',
      simulation_prelude = ''0''\<rparr>"

definition example_instances :: "ec2_instance list" where
  "example_instances =
     [\<lparr>Tags = [''ar-splunk-attack-range-key-pair-default''], State_Name = ''running'',
       NetworkInterfaces = [Some ''18.156.0.7'']\<rparr>,
      \<lparr>Tags = [''ar-win-attack-range-key-pair-default-0''], State_Name = ''stopped'',
       NetworkInterfaces = [None]\<rparr>]"

definition example_process :: "nat \<Rightarrow> string \<times> int option" where
  "example_process i =
     (if i = 0 then (''==> amazon-ebs: Creating AMI\<newline>'', None)
      else if i = 1 then ([], None)
      else (''Build finished.\<newline>'', Some 0))"

definition example_env :: env where
  "example_env =
     \<lparr>check_region = (\<lambda>tr r. r = ''eu-central-1''),
      ami_available = (\<lambda>tr img r. img = ''splunk-v2-0-0'' \<or> img = ''nginx-web-proxy-v2-0-0''),
      ami_available_other_region =
        (\<lambda>tr img. if img = ''windows-2016-v2-0-0''
                   then Some \<lparr>region = ''us-west-2'', image_id = ''ami-0123456789''\<rparr> else None),
      popen_packer = (\<lambda>tr argv. example_process),
      terraform_apply = (\<lambda>tr. 0),
      terraform_destroy = (\<lambda>tr. 1),
      get_all_instances = (\<lambda>tr k n r. example_instances),
      get_single_instance_public_ip = (\<lambda>tr i k n r. ''18.156.0.7''),
      read_file = (\<lambda>tr p. None),
      open_wb = (\<lambda>tr p. True),
      module_dir = ''/opt/attack_range/modules''\<rparr>"

definition example_controller :: controller where
  "example_controller =
     \<lparr>self_config = example_config,
      self_terraform = \<lparr>working_dir = ''/opt/attack_range/modules/../terraform/aws'',
                        variables = example_config, parallelism = 15\<rparr>\<rparr>"

text \<open>
  The same range with an inventory in which the running Splunk server has a network
  interface without a public address.
\<close>

definition bare_instances :: "ec2_instance list" where
  "bare_instances =
     [\<lparr>Tags = [''ar-win-attack-range-key-pair-default-0''], State_Name = ''stopped'',
       NetworkInterfaces = []\<rparr>,
      \<lparr>Tags = [''ar-splunk-attack-range-key-pair-default''], State_Name = ''running'',
       NetworkInterfaces = [None]\<rparr>]"

definition bare_env :: env where
  "bare_env = example_env\<lparr>get_all_instances := (\<lambda>tr k n r. bare_instances)\<rparr>"

text \<open>
  The same range with a builder that has written one line and has ended when the loop
  polls for the first time.
\<close>

definition ended_process :: "nat \<Rightarrow> string \<times> int option" where
  "ended_process i = (''Build finished.\<newline>'', Some 0)"

definition ended_env :: env where
  "ended_env = example_env\<lparr>popen_packer := (\<lambda>tr argv. ended_process)\<rparr>"

definition example_images :: "string list" where
  "example_images =
     [''splunk-v2-0-0'', ''windows-2016-v2-0-0'', ''linux-v2-0-0'', ''nginx-web-proxy-v2-0-0'']"

text \<open>
  What the loop over the images, \<^verbatim>\<open>show\<close> and \<^verbatim>\<open>build\<close> add to the transcript there.
\<close>

definition example_steps :: "event list" where
  "example_steps =
     [AmiAvailable ''splunk-v2-0-0'' ''eu-central-1'' True,
      LogInfo ''Image splunk-v2-0-0 is available in region eu-central-1'',
      AmiAvailable ''windows-2016-v2-0-0'' ''eu-central-1'' False,
      LogInfo ''Image windows-2016-v2-0-0 is not available in region eu-central-1'',
      LogInfo ''Checking if image windows-2016-v2-0-0 is available in other regions.'',
      AmiAvailableOtherRegion ''windows-2016-v2-0-0''
        (Some \<lparr>region = ''us-west-2'', image_id = ''ami-0123456789''\<rparr>),
      LogInfo ''Found image windows-2016-v2-0-0 in region us-west-2. Copy it to region eu-central-1'',
      CopyImage ''windows-2016-v2-0-0'' ''ami-0123456789'' ''us-west-2'' ''eu-central-1'',
      AmiAvailable ''linux-v2-0-0'' ''eu-central-1'' False,
      LogInfo ''Image linux-v2-0-0 is not available in region eu-central-1'',
      LogInfo ''Checking if image linux-v2-0-0 is available in other regions.'',
      AmiAvailableOtherRegion ''linux-v2-0-0'' None,
      LogInfo ''Image linux-v2-0-0 need to be built with packer.'',
      LogInfo ''Create golden image for linux-v2-0-0. This can take up to 30 minutes.\<newline>'',
      Popen [''packer'', ''build'', ''-force'', ''-only=amazon-ebs.ubuntu-18-04'',
             ''packer/linux_server/linux-ubuntu-18-04.pkr.hcl''],
      PrintBytes ''==> amazon-ebs: Creating AMI'',
      AmiAvailable ''nginx-web-proxy-v2-0-0'' ''eu-central-1'' True,
      LogInfo ''Image nginx-web-proxy-v2-0-0 is available in region eu-central-1'']"

definition example_show :: "event list" where
  "example_show =
     [LogInfo ''[action] > show\<newline>'',
      GetAllInstances ''attack-range-key-pair'' ''default'' ''eu-central-1'' example_instances,
      Print [],
      Print ''Status Virtual Machines\<newline>'',
      PrintTable [[''ar-splunk-attack-range-key-pair-default'', ''running'', ''18.156.0.7''],
                  [''ar-win-attack-range-key-pair-default-0'', ''stopped'']]
        [''Name'', ''Status'', ''IP Address''],
      Print (''\<newline>Access Splunk via:\<newline>'' @ tab @ ''Web > http://18.156.0.7:8000\<newline>'' @ tab
               @ ''SSH > ssh -i~/.ssh/id_rsa ubuntu@18.156.0.7\<newline>'' @ tab
               @ ''username: admin \<newline>'' @ tab @ ''password: Pl3ase-k1Ll-me:p''),
      Print []]"

definition example_build_transcript :: "event list" where
  "example_build_transcript =
     [LogInfo ''[action] > build\<newline>'',
      LogInfo ''Check if images are available in region eu-central-1'']
     @ example_steps
     @ [TerraformApply 0, LogInfo built_msg]
     @ example_show"

section \<open>Properties\<close>

subsection \<open>stop, resume and simulate\<close>

text \<open>
  C5. \<^verbatim>\<open>stop\<close> and \<^verbatim>\<open>resume\<close> first retrieve the instances for the configured
  key name, attack range name and region, then request the state \<open>stopped\<close>
  (\<^verbatim>\<open>stop\<close>) or \<open>running\<close> (\<^verbatim>\<open>resume\<close>) for exactly the instances retrieved, in the
  configured region; nothing else happens, and the two transcripts differ only in the
  requested state.
\<close>

theorem stop_resume_change_state:
  "let c = self_config self;
       found = get_all_instances e tr (general_key_name c) (general_attack_range_name c)
                 (aws_region c);
       query = GetAllInstances (general_key_name c) (general_attack_range_name c)
                 (aws_region c) found
   in stop e self tr =
        (Return (), tr @ [query, ChangeEc2State found ''stopped'' (aws_region c)])
    \<and> resume e self tr =
        (Return (), tr @ [query, ChangeEc2State found ''running'' (aws_region c)])
    \<and> map (retarget ''running'') (new_events tr (snd (stop e self tr)))
        = new_events tr (snd (resume e self tr))"
  by (simp add: stop_def resume_def new_events_def Let_def)

text \<open>
  C6. \<^verbatim>\<open>simulate\<close> with the engine \<open>ART\<close> calls the ART simulation controller with the
  target and the technique, and with the engine \<open>PurpleSharp\<close> the PurpleSharp simulation
  controller with the target, the technique and the playbook; each engine calls its own
  controller and not the other.
\<close>

theorem simulate_dispatch:
  "simulate e self ''ART'' target technique playbook tr =
     (Return (), tr @ [LogInfo ''[action] > simulate\<newline>'', ArtSimulate target technique])
   \<and> simulate e self ''PurpleSharp'' target technique playbook tr =
     (Return (), tr @ [LogInfo ''[action] > simulate\<newline>'',
                       PurplesharpSimulate target technique playbook])"
  by (simp add: simulate_def)

text \<open>
  C9. For every engine other than \<open>ART\<close> and \<open>PurpleSharp\<close>, \<^verbatim>\<open>simulate\<close> logs the
  action line and returns: no simulation controller is called and no error is signalled.
\<close>

theorem simulate_other_engine:
  assumes "engine \<noteq> ''ART''" and "engine \<noteq> ''PurpleSharp''"
  shows "simulate e self engine target technique playbook tr =
           (Return (), tr @ [LogInfo ''[action] > simulate\<newline>''])"
  using assms by (simp add: simulate_def)

theorem simulate_other_engine_witness:
  "''Caldera'' \<noteq> ''ART'' \<and> ''Caldera'' \<noteq> ''PurpleSharp''
   \<and> simulate example_env example_controller ''Caldera'' ''ar-win'' ''T1003'' ''play.json'' [] =
       (Return (), [LogInfo ''[action] > simulate\<newline>''])"
  using simulate_other_engine
          [where engine = "''Caldera''" and e = example_env and self = example_controller
             and target = "''ar-win''" and technique = "''T1003''"
             and playbook = "''play.json''" and tr = "[]"]
  by simp

subsection \<open>The constructor and dump\<close>

text \<open>
  C3. The constructor checks the region before anything else. When the region of the AWS
  command line is not the region of the configuration, it logs an error and exits with
  code 1: the transcript holds the check and the error, and no controller exists on which
  a method could run. When the regions agree it returns the controller with the
  configuration and the terraform handle.
\<close>

theorem init_validates_region:
  "init e cfg tr =
     (if check_region e tr (aws_region cfg)
      then (Return \<lparr>self_config = cfg,
                    self_terraform =
                      \<lparr>working_dir = os_path_join (module_dir e) ''../terraform/aws'',
                       variables = cfg, parallelism = 15\<rparr>\<rparr>,
            tr @ [CheckRegion (aws_region cfg) True])
      else (SysExit 1,
            tr @ [CheckRegion (aws_region cfg) False,
                  LogError ''AWS cli region and region in config file are not the same.'']))"
  by (simp add: init_def Let_def)

text \<open>
  C8. For all \<open>dump_name\<close>, \<open>search\<close>, \<open>earliest\<close> and \<open>latest\<close>, \<^verbatim>\<open>dump\<close> exports the
  search \<open>search <search> earliest=-<earliest> latest=<latest> | sort 0 _time\<close> into the
  file \<open>dump_name\<close> beside the module directory, and closes the file after the export.
  The file is opened first; a run in which it cannot be opened raises before any export.
\<close>

theorem dump_exports_search:
  "let c = self_config self;
       query = ''search '' @ search @ '' earliest=-'' @ earliest @ '' latest='' @ latest
                 @ '' | sort 0 _time'';
       path = os_path_join (module_dir e) (''../'' @ dump_name);
       tr2 = tr @ [LogInfo ''Dump log data'', LogInfo (''Dumping Splunk Search: '' @ query)];
       server = ''ar-splunk-'' @ general_key_name c @ ''-'' @ general_attack_range_name c;
       host = get_single_instance_public_ip e (tr2 @ [OpenWb path True]) server
                (general_key_name c) (general_attack_range_name c) (aws_region c)
   in dump e self dump_name search earliest latest tr =
        (if open_wb e tr2 path
         then (Return (),
               tr2 @ [OpenWb path True,
                      GetSingleInstancePublicIp server (general_key_name c)
                        (general_attack_range_name c) (aws_region c) host,
                      ExportSearch host query (general_attack_range_password c) path,
                      CloseFile path,
                      LogInfo ''[Completed]''])
         else (Raise OSError, tr2 @ [OpenWb path False]))"
  by (simp add: dump_def Let_def)

subsection \<open>packer\<close>

text \<open>
  The reading loop, round by round: it ends in a round in which the process has ended,
  and otherwise prints the line read, if any, and goes on.
\<close>

lemma read_output_ended:
  "snd (process i) \<noteq> None \<Longrightarrow> read_output process i tr = Some tr"
  by (cases "process i") (subst read_output.simps, simp)

lemma read_output_running:
  "snd (process i) = None \<Longrightarrow>
   read_output process i tr =
     read_output process (Suc i)
       (if fst (process i) \<noteq> [] then tr @ [PrintBytes (strip (fst (process i)))] else tr)"
  by (cases "process i") (subst read_output.simps, simp)

lemma streamed_Suc:
  "streamed process i (Suc n) =
     (if fst (process i) \<noteq> [] then [strip (fst (process i))] else []) @ streamed process (Suc i) n"
  by (simp add: streamed_def upt_conv_Cons del: upt_Suc)

text \<open>
  A process that ends at round \<open>i + n\<close> makes the loop return, with the lines of the
  \<open>n\<close> rounds before printed.
\<close>

lemma read_output_exits:
  "snd (process (i + n)) \<noteq> None \<Longrightarrow> (\<forall>j<n. snd (process (i + j)) = None)
   \<Longrightarrow> read_output process i tr = Some (tr @ map PrintBytes (streamed process i n))"
proof (induction n arbitrary: i tr)
  case 0
  then show ?case
    by (simp add: read_output_ended streamed_def)
next
  case (Suc n)
  from Suc.prems(2) have running: "snd (process i) = None"
    by (metis add.right_neutral zero_less_Suc)
  have later: "\<forall>j<n. snd (process (Suc i + j)) = None"
    using Suc.prems(2) by (metis Suc_less_eq add_Suc_shift)
  have ended: "snd (process (Suc i + n)) \<noteq> None"
    using Suc.prems(1) by simp
  have rest: "read_output process (Suc i) tr' = Some (tr' @ map PrintBytes (streamed process (Suc i) n))" for tr'
    using Suc.IH [OF ended later] .
  show ?case
    by (simp add: read_output_running [of process i, OF running] rest streamed_Suc)
qed

text \<open>
  Conversely the loop returns only if the process ends, by induction on the loop.
\<close>

lemma read_output_Some_exits:
  assumes "read_output process i tr = Some tr'"
  shows "\<exists>n. snd (process (i + n)) \<noteq> None"
proof (rule read_output.raw_induct
         [where P = "\<lambda>process i tr tr'. \<exists>n. snd (process (i + n)) \<noteq> None", OF _ assms])
  fix rd :: "(nat \<Rightarrow> string \<times> int option) \<Rightarrow> nat \<Rightarrow> event list \<Rightarrow> event list option"
  fix process i tr tr'
  assume IH: "\<And>p j t y. rd p j t = Some y \<Longrightarrow> \<exists>n. snd (p (j + n)) \<noteq> None"
  assume body: "(case process i of
                   (output, polled) \<Rightarrow>
                     if polled \<noteq> None then Some tr
                     else rd process (Suc i)
                            (if output \<noteq> [] then tr @ [PrintBytes (strip output)] else tr))
                = Some tr'"
  show "\<exists>n. snd (process (i + n)) \<noteq> None"
  proof (cases "snd (process i) = None")
    case True
    with body have "\<exists>tr1. rd process (Suc i) tr1 = Some tr'"
      by (cases "process i") (auto split: if_splits)
    with IH obtain n where "snd (process (Suc i + n)) \<noteq> None" by blast
    then have "snd (process (i + Suc n)) \<noteq> None" by simp
    then show ?thesis by blast
  next
    case False
    then have "snd (process (i + 0)) \<noteq> None" by simp
    then show ?thesis by blast
  qed
qed

lemma read_output_forever:
  "\<forall>n. snd (process n) = None \<Longrightarrow> read_output process i tr = None"
  using read_output_Some_exits [of process i tr] by (cases "read_output process i tr") auto

lemma read_output_returns:
  assumes "\<exists>n. snd (process n) \<noteq> None"
  shows "read_output process 0 tr \<noteq> None"
proof -
  from assms obtain n where n: "snd (process (0 + n)) \<noteq> None" and
      least: "\<forall>m<n. \<not> snd (process (0 + m)) \<noteq> None"
    using exists_least_iff [of "\<lambda>n. snd (process n) \<noteq> None"] by auto
  from least have "\<forall>j<n. snd (process (0 + j)) = None" by simp
  from read_output_exits [OF n this, of tr] show ?thesis by simp
qed

lemma read_output_Some_shape:
  assumes "read_output process i tr = Some tr'"
  shows "\<exists>ls. tr' = tr @ map PrintBytes ls"
proof -
  from read_output_Some_exits [OF assms] have "\<exists>n. snd (process (i + n)) \<noteq> None" .
  then obtain n where n: "snd (process (i + n)) \<noteq> None" and
      least: "\<forall>m<n. \<not> snd (process (i + m)) \<noteq> None"
    using exists_least_iff [of "\<lambda>n. snd (process (i + n)) \<noteq> None"] by blast
  from least have "\<forall>j<n. snd (process (i + j)) = None" by simp
  from read_output_exits [OF n this, of tr] assms show ?thesis by auto
qed

lemma exits_at_iff:
  "exits_at process n \<longleftrightarrow> snd (process (0 + n)) \<noteq> None \<and> (\<forall>j<n. snd (process (0 + j)) = None)"
  by (auto simp: exits_at_def list_all_iff)

text \<open>
  The chain of prefix tests agrees with the table of families.
\<close>

lemma packer_unsupported:
  "family_of image_name = None \<Longrightarrow>
   packer e self image_name tr =
     Some (SysExit 1, tr @ [LogInfo (create_msg image_name), LogError ''Image not supported.''])"
  by (simp add: family_of_def families_def packer_def packer_select_def Let_def split: if_splits)

lemma packer_supported:
  "family_of image_name = Some (p, target, template) \<Longrightarrow>
   packer e self image_name tr =
     (case read_output
             (popen_packer e (tr @ [LogInfo (create_msg image_name)])
                [''packer'', ''build'', ''-force'', ''-only='' @ target, template])
             0
             (tr @ [LogInfo (create_msg image_name),
                    Popen [''packer'', ''build'', ''-force'', ''-only='' @ target, template]]) of
        None \<Rightarrow> None
      | Some tr3 \<Rightarrow> Some (Return (), tr3))"
  by (auto simp: family_of_def families_def packer_def packer_select_def packer_argv_def Let_def
           split: if_splits)

text \<open>
  What \<^verbatim>\<open>packer\<close> does, by family. It chooses the builder target and the template by
  the prefix of the image name alone, one per family. For an image of no family it logs
  \<open>Image not supported.\<close> and exits with code 1, and no process is started. For an image
  of a family it starts \<open>packer build -force -only=<target> <template>\<close>; when the process
  ends at round \<open>n\<close> of the reading loop, \<^verbatim>\<open>packer\<close> returns after printing the lines
  read in the rounds before \<open>n\<close>, and the line read in round \<open>n\<close> itself is not
  printed; when the process never ends, \<^verbatim>\<open>packer\<close> does not return.
\<close>

lemma packer_by_family:
  "case family_of image_name of
     None \<Rightarrow>
       packer e self image_name tr =
         Some (SysExit 1,
               tr @ [LogInfo (create_msg image_name), LogError ''Image not supported.''])
   | Some (p, target, template) \<Rightarrow>
       (let argv = [''packer'', ''build'', ''-force'', ''-only='' @ target, template];
            process = popen_packer e (tr @ [LogInfo (create_msg image_name)]) argv
        in (exits_at process n \<longrightarrow>
              packer e self image_name tr =
                Some (Return (),
                      tr @ [LogInfo (create_msg image_name), Popen argv]
                         @ map PrintBytes (streamed process 0 n)))
           \<and> ((\<forall>k. snd (process k) = None) \<longrightarrow> packer e self image_name tr = None))"
proof (cases "family_of image_name")
  case None
  then show ?thesis by (simp add: packer_unsupported)
next
  case (Some fam)
  obtain p target template where fam: "fam = (p, target, template)"
    by (cases fam) auto
  have sup: "family_of image_name = Some (p, target, template)"
    using Some fam by simp
  define argv where "argv = [''packer'', ''build'', ''-force'', ''-only='' @ target, template]"
  define process where
    "process = popen_packer e (tr @ [LogInfo (create_msg image_name)]) argv"
  have run: "packer e self image_name tr =
               (case read_output process 0 (tr @ [LogInfo (create_msg image_name), Popen argv]) of
                  None \<Rightarrow> None
                | Some tr3 \<Rightarrow> Some (Return (), tr3))"
    using packer_supported [OF sup] by (simp add: argv_def process_def)
  have exits: "packer e self image_name tr =
                 Some (Return (),
                       tr @ [LogInfo (create_msg image_name), Popen argv]
                          @ map PrintBytes (streamed process 0 n))"
    if "exits_at process n"
  proof -
    from that have "snd (process (0 + n)) \<noteq> None" and "\<forall>j<n. snd (process (0 + j)) = None"
      by (simp_all add: exits_at_iff)
    from read_output_exits [OF this] show ?thesis
      by (simp add: run)
  qed
  have forever: "packer e self image_name tr = None" if "\<forall>k. snd (process k) = None"
    using that by (simp add: run read_output_forever)
  show ?thesis
    unfolding sup using exits forever
    by (simp add: Let_def argv_def process_def)
qed

lemma packer_by_family_example:
  "family_of ''kali-v2-0-0'' = None
   \<and> packer example_env example_controller ''kali-v2-0-0'' [] =
       Some (SysExit 1, [LogInfo (create_msg ''kali-v2-0-0''), LogError ''Image not supported.''])
   \<and> family_of ''linux-v2-0-0''
       = Some (''linux'', ''amazon-ebs.ubuntu-18-04'', ''packer/linux_server/linux-ubuntu-18-04.pkr.hcl'')
   \<and> exits_at example_process 2
   \<and> packer example_env example_controller ''linux-v2-0-0'' [] =
       Some (Return (),
             [LogInfo (create_msg ''linux-v2-0-0''),
              Popen [''packer'', ''build'', ''-force'', ''-only=amazon-ebs.ubuntu-18-04'',
                     ''packer/linux_server/linux-ubuntu-18-04.pkr.hcl''],
              PrintBytes ''==> amazon-ebs: Creating AMI''])"
proof -
  have f1: "family_of ''kali-v2-0-0'' = None"
    by (simp add: family_of_def families_def startswith_def)
  have f2: "family_of ''linux-v2-0-0''
       = Some (''linux'', ''amazon-ebs.ubuntu-18-04'', ''packer/linux_server/linux-ubuntu-18-04.pkr.hcl'')"
    by (simp add: family_of_def families_def startswith_def)
  have ex: "exits_at example_process 2"
    by (simp add: exits_at_def example_process_def upt_conv_Cons)
  have st: "streamed example_process 0 2 = [''==> amazon-ebs: Creating AMI'']"
    by (simp add: streamed_def example_process_def upt_conv_Cons strip_def isspace_def)
  have pp: "popen_packer example_env tr argv = example_process" for tr argv
    by (simp add: example_env_def)
  show ?thesis
    using packer_by_family [where image_name = "''kali-v2-0-0''" and e = example_env
        and self = example_controller and tr = "[]"]
      packer_by_family [where image_name = "''linux-v2-0-0''" and e = example_env
        and self = example_controller and tr = "[]" and n = 2]
    by (simp add: f1 f2 ex st pp Let_def)
qed

subsection \<open>show\<close>

text \<open>The chain of prefix tests of the loop agrees with the table of connection messages.\<close>

lemma access_message_table:
  "access_message c n ip = connection_message c n ip"
  by (simp add: access_message_def connection_message_def connection_table_def ssh_line_def
        login_lines_def tab_def)

lemma connection_message_recognized:
  "connection_message c n ip \<noteq> None \<longleftrightarrow> recognized n"
  by (simp add: connection_message_def connection_table_def recognized_def)

lemma connection_info_recognized:
  "length (connection_info c i) = (if running i \<and> recognized (name_of i) then 1 else 0)"
  using connection_message_recognized [of c "name_of i" "address_of i"]
  by (auto simp: connection_info_def split: option.splits)

text \<open>
  One round of the loop on a well-formed instance, and the whole loop: the rows and the
  messages are appended in the order of the inventory.
\<close>

lemma show_instance_well_formed:
  assumes "well_formed i"
  shows "show_instance c v i =
           Inr \<lparr>response = response v @ [inventory_row i],
                messages = messages v @ connection_info c i,
                instances_running = (instances_running v \<or> running i),
                splunk_ip = (if running i \<and> startswith (name_of i) ''ar-splunk''
                             then address_of i else splunk_ip v)\<rparr>"
proof (cases "running i")
  case True
  with assms obtain n ns ip ifs where "Tags i = n # ns" and "NetworkInterfaces i = Some ip # ifs"
    by (auto simp: well_formed_def neq_Nil_conv split: list.splits option.splits)
  with True show ?thesis
    by (cases "connection_message c n ip")
       (auto simp: show_instance_def tag0_value_def public_ip_def running_def inventory_row_def
          connection_info_def name_of_def address_of_def Let_def access_message_table)
next
  case False
  with assms obtain n ns where "Tags i = n # ns"
    by (auto simp: well_formed_def neq_Nil_conv)
  with False show ?thesis
    by (simp add: show_instance_def tag0_value_def running_def inventory_row_def
          connection_info_def name_of_def)
qed

lemma show_loop_well_formed:
  "list_all well_formed instances \<Longrightarrow>
   show_loop c instances v =
     Inr \<lparr>response = response v @ map inventory_row instances,
          messages = messages v @ concat (map (connection_info c) instances),
          instances_running = (instances_running v \<or> list_ex running instances),
          splunk_ip = (case filter (\<lambda>i. running i \<and> startswith (name_of i) ''ar-splunk'') instances of
                         [] \<Rightarrow> splunk_ip v | found \<Rightarrow> address_of (last found))\<rparr>"
proof (induction instances arbitrary: v)
  case Nil
  then show ?case by simp
next
  case (Cons i instances)
  then show ?case
    by (simp add: show_instance_well_formed split: list.splits)
qed

text \<open>
  An instance that is not well formed makes the round raise, and so the loop.
\<close>

lemma show_instance_ill_formed:
  "\<not> well_formed i \<Longrightarrow> \<exists>err. show_instance c v i = Inl err"
  by (auto simp: show_instance_def tag0_value_def public_ip_def well_formed_def running_def
        split: list.splits option.splits if_splits)

lemma show_loop_ill_formed:
  "\<not> list_all well_formed instances \<Longrightarrow> \<exists>err. show_loop c instances v = Inl err"
proof (induction instances arbitrary: v)
  case Nil
  then show ?case by simp
next
  case (Cons i instances)
  show ?case
  proof (cases "well_formed i")
    case True
    with Cons.prems have "\<not> list_all well_formed instances" by simp
    from Cons.IH [OF this] show ?thesis
      by (simp add: show_instance_well_formed [OF True])
  next
    case False
    from show_instance_ill_formed [OF this] obtain err where "show_instance c v i = Inl err"
      by blast
    then show ?thesis by simp
  qed
qed

text \<open>\<^verbatim>\<open>show\<close> on a well-formed inventory, with the token read by \<^verbatim>\<open>get_prelude_token\<close>.\<close>

lemma show_well_formed:
  "let c = self_config self;
       tr1 = tr @ [LogInfo ''[action] > show\<newline>''];
       instances = get_all_instances e tr1 (general_key_name c) (general_attack_range_name c)
                     (aws_region c);
       tr2 = tr1 @ [GetAllInstances (general_key_name c) (general_attack_range_name c)
                      (aws_region c) instances]
   in list_all well_formed instances \<longrightarrow>
        show e self tr =
          (if simulation_prelude c = ''1''
           then (case get_prelude_token e ''/var/tmp/.prelude_session_token'' tr2 of
                   (prelude_token, tr3) \<Rightarrow>
                     (Return (),
                      tr3 @ rendering c instances
                              [prelude_message (splunk_address instances) prelude_token]))
           else (Return (), tr2 @ rendering c instances []))"
proof -
  have print: "show_print
                 \<lparr>response = map inventory_row instances,
                    messages = concat (map (connection_info c) instances),
                    instances_running = list_ex running instances,
                    splunk_ip = sip\<rparr>
                 (concat (map (connection_info c) instances) @ extra)
               = rendering c instances extra" for c instances sip extra
    by (simp add: show_print_def rendering_def not_found_msg_def)
  have loop: "show_loop c instances
                \<lparr>response = [], messages = [], instances_running = False, splunk_ip = []\<rparr>
              = Inr \<lparr>response = map inventory_row instances,
                     messages = concat (map (connection_info c) instances),
                     instances_running = list_ex running instances,
                     splunk_ip = splunk_address instances\<rparr>"
    if "list_all well_formed instances" for c instances
    using that by (simp add: show_loop_well_formed splunk_address_def split: list.splits)
  show ?thesis
    using print [where extra = "[]"]
    by (auto simp: show_def Let_def loop print split: prod.splits)
qed

lemma get_prelude_token_cases:
  "get_prelude_token e p tr =
     (case read_file e tr p of
        Some token \<Rightarrow> (token, tr @ [ReadFile p (Some token)])
      | None \<Rightarrow>
          ([], tr @ [ReadFile p None,
                     LogError (''was not able to read prelude token from '' @ p)]))"
  by (simp add: get_prelude_token_def Let_def split: option.splits)

text \<open>
  C7, as stated, fails: on an inventory with a running instance that has no public
  address \<^verbatim>\<open>show\<close> raises after the inventory query, and prints no row at all, not even
  for the stopped instance before it.
\<close>

theorem show_raises_without_address:
  "show bare_env example_controller [] =
     (Raise KeyError,
      [LogInfo ''[action] > show\<newline>'',
       GetAllInstances ''attack-range-key-pair'' ''default'' ''eu-central-1''
         [\<lparr>Tags = [''ar-win-attack-range-key-pair-default-0''], State_Name = ''stopped'',
           NetworkInterfaces = []\<rparr>,
          \<lparr>Tags = [''ar-splunk-attack-range-key-pair-default''], State_Name = ''running'',
           NetworkInterfaces = [None]\<rparr>]])"
  by (simp add: show_def Let_def bare_env_def bare_instances_def example_env_def
        example_controller_def example_config_def show_instance_def tag0_value_def
        public_ip_def)

text \<open>
  C7, amended. \<^verbatim>\<open>show\<close> asks for the instances of the configured key name, attack
  range name and region. When every instance has a first tag and every running instance a
  public address on its first network interface, it prints one table with one row per
  instance, in order: name, state and public address for a running instance, name and
  state for any other; after the table, one connection message for each running instance
  whose name has a known prefix (\<open>ar-splunk\<close>, \<open>ar-phantom\<close>, \<open>ar-win\<close>, \<open>ar-linux\<close>,
  \<open>ar-kali\<close>, \<open>ar-nginx\<close>), and the Prelude message when Prelude is configured. When
  the inventory is empty it prints \<open>ERROR: Can't find configured Attack Range Instances\<close>
  and no table. When an instance lacks a tag, or a running instance an address,
  \<^verbatim>\<open>show\<close> raises after the query and prints nothing.
\<close>

theorem show_renders_inventory:
  "let c = self_config self;
       tr1 = tr @ [LogInfo ''[action] > show\<newline>''];
       instances = get_all_instances e tr1 (general_key_name c) (general_attack_range_name c)
                     (aws_region c);
       tr2 = tr1 @ [GetAllInstances (general_key_name c) (general_attack_range_name c)
                      (aws_region c) instances];
       content = read_file e tr2 ''/var/tmp/.prelude_session_token'';
       token_events =
         ReadFile ''/var/tmp/.prelude_session_token'' content
           # (case content of
                Some token \<Rightarrow> []
              | None \<Rightarrow>
                  [LogError
                     ''was not able to read prelude token from /var/tmp/.prelude_session_token'']);
       prelude =
         ''\<newline>Access Prelude Operator UI via:'' @ [CHR 0x0A, CHR 0x09]
           @ ''redirector FQDN > '' @ splunk_address instances @ [CHR 0x0A, CHR 0x09]
           @ ''Token: '' @ (case content of Some token \<Rightarrow> token | None \<Rightarrow> [])
           @ [CHR 0x0A, CHR 0x09]
           @ ''See guide details: https://github.com/splunk/attack_range/wiki/Prelude-Operator''
   in (list_all well_formed instances \<longrightarrow>
         show e self tr =
           (Return (),
            tr2 @ (if simulation_prelude c = ''1''
                   then token_events @ rendering c instances [prelude]
                   else rendering c instances [])))
    \<and> (\<not> list_all well_formed instances \<longrightarrow> (\<exists>err. show e self tr = (Raise err, tr2)))
    \<and> rendering c [] extra =
        [Print [], Print ''Status Virtual Machines\<newline>'',
         Print ''ERROR: Can't find configured Attack Range Instances'']
    \<and> length (connection_info c i) = (if running i \<and> recognized (name_of i) then 1 else 0)"
proof -
  let ?c = "self_config self"
  let ?tr1 = "tr @ [LogInfo ''[action] > show\<newline>'']"
  let ?instances = "get_all_instances e ?tr1 (general_key_name ?c)
                      (general_attack_range_name ?c) (aws_region ?c)"
  let ?tr2 = "?tr1 @ [GetAllInstances (general_key_name ?c) (general_attack_range_name ?c)
                        (aws_region ?c) ?instances]"
  have good: "show e self tr =
      (Return (),
       ?tr2 @ (if simulation_prelude ?c = ''1''
          then (ReadFile ''/var/tmp/.prelude_session_token''
                    (read_file e ?tr2 ''/var/tmp/.prelude_session_token'')
                  # (case read_file e ?tr2 ''/var/tmp/.prelude_session_token'' of
                       Some token \<Rightarrow> []
                     | None \<Rightarrow>
                         [LogError
                            ''was not able to read prelude token from /var/tmp/.prelude_session_token'']))
               @ rendering ?c ?instances
                   [''\<newline>Access Prelude Operator UI via:'' @ [CHR 0x0A, CHR 0x09]
                      @ ''redirector FQDN > '' @ splunk_address ?instances @ [CHR 0x0A, CHR 0x09]
                      @ ''Token: ''
                      @ (case read_file e ?tr2 ''/var/tmp/.prelude_session_token'' of
                           Some token \<Rightarrow> token | None \<Rightarrow> [])
                      @ [CHR 0x0A, CHR 0x09]
                      @ ''See guide details: https://github.com/splunk/attack_range/wiki/Prelude-Operator'']
          else rendering ?c ?instances []))"
    if wf: "list_all well_formed ?instances"
  proof -
    from show_well_formed [of self tr e] wf
    have sh: "show e self tr =
          (if simulation_prelude ?c = ''1''
           then (case get_prelude_token e ''/var/tmp/.prelude_session_token'' ?tr2 of
                   (prelude_token, tr3) \<Rightarrow>
                     (Return (),
                      tr3 @ rendering ?c ?instances
                              [prelude_message (splunk_address ?instances) prelude_token]))
           else (Return (), ?tr2 @ rendering ?c ?instances []))"
      by (simp only: Let_def)
    show ?thesis
      unfolding sh get_prelude_token_cases
      by (cases "read_file e ?tr2 ''/var/tmp/.prelude_session_token''")
         (simp_all add: prelude_message_def tab_def)
  qed
  have bad: "\<exists>err. show e self tr = (Raise err, ?tr2)"
    if nwf: "\<not> list_all well_formed ?instances"
    using show_loop_ill_formed [OF nwf, of ?c
            "\<lparr>response = [], messages = [], instances_running = False, splunk_ip = []\<rparr>"]
    by (auto simp: show_def Let_def)
  have empty: "rendering c [] extra =
        [Print [], Print ''Status Virtual Machines\<newline>'',
         Print ''ERROR: Can't find configured Attack Range Instances'']" for c
    by (simp add: rendering_def)
  show ?thesis
    unfolding Let_def using good bad empty connection_info_recognized by blast
qed

theorem show_renders_inventory_witness:
  "list_all well_formed example_instances
   \<and> show example_env example_controller [] = (Return (), example_show)
   \<and> map inventory_row example_instances
       = [[''ar-splunk-attack-range-key-pair-default'', ''running'', ''18.156.0.7''],
          [''ar-win-attack-range-key-pair-default-0'', ''stopped'']]
   \<and> map (length \<circ> connection_info example_config) example_instances = [1, 0]
   \<and> drop 2 example_show = rendering example_config example_instances []
   \<and> \<not> list_all well_formed bare_instances
   \<and> fst (show bare_env example_controller []) = Raise KeyError"
proof -
  have wf: "list_all well_formed example_instances"
    by (simp add: example_instances_def well_formed_def running_def)
  have nwf: "\<not> list_all well_formed bare_instances"
    by (simp add: bare_instances_def well_formed_def running_def)
  have ins: "get_all_instances example_env h k n r = example_instances" for h k n r
    by (simp add: example_env_def)
  have bins: "get_all_instances bare_env h k n r = bare_instances" for h k n r
    by (simp add: bare_env_def)
  have cfg: "self_config example_controller = example_config"
    by (simp add: example_controller_def)
  have pre: "simulation_prelude example_config \<noteq> ''1''"
    by (simp add: example_config_def)
  have rows: "map inventory_row example_instances
       = [[''ar-splunk-attack-range-key-pair-default'', ''running'', ''18.156.0.7''],
          [''ar-win-attack-range-key-pair-default-0'', ''stopped'']]"
    by (simp add: example_instances_def inventory_row_def running_def name_of_def address_of_def)
  have info: "map (length \<circ> connection_info example_config) example_instances = [1, 0]"
    by (simp add: example_instances_def connection_info_def running_def name_of_def
          connection_message_def connection_table_def startswith_def)
  have msgs: "concat (map (connection_info example_config) example_instances)
                = [''\<newline>Access Splunk via:\<newline>'' @ tab @ ''Web > http://18.156.0.7:8000\<newline>'' @ tab
               @ ''SSH > ssh -i~/.ssh/id_rsa ubuntu@18.156.0.7\<newline>'' @ tab
               @ ''username: admin \<newline>'' @ tab @ ''password: Pl3ase-k1Ll-me:p'']"
    by (simp add: example_instances_def connection_info_def running_def name_of_def address_of_def
          connection_message_def connection_table_def startswith_def example_config_def tab_def)
  have rend: "drop 2 example_show = rendering example_config example_instances []"
    unfolding rendering_def rows msgs
    by (simp add: example_show_def example_instances_def running_def)
  have keys: "general_key_name example_config = ''attack-range-key-pair''"
    "general_attack_range_name example_config = ''default''"
    "aws_region example_config = ''eu-central-1''"
    by (simp_all add: example_config_def)
  have "show example_env example_controller [] =
          (Return (), take 2 example_show @ rendering example_config example_instances [])"
    using show_renders_inventory
            [where e = example_env and self = example_controller and tr = "[]"
               and extra = "[]" and i = "hd example_instances"]
      wf
    by (simp add: Let_def ins cfg pre keys example_show_def)
  then have good: "show example_env example_controller [] = (Return (), example_show)"
    by (simp add: rend [symmetric])
  have "\<exists>err. fst (show bare_env example_controller []) = Raise err"
    using show_renders_inventory
            [where e = bare_env and self = example_controller and tr = "[]"
               and extra = "[]" and i = "hd bare_instances"]
      nwf
    by (auto simp: Let_def bins)
  moreover have "fst (show bare_env example_controller []) \<noteq> Raise IndexError"
    "fst (show bare_env example_controller []) \<noteq> Raise OSError"
    by (simp_all add: show_def Let_def bins bare_instances_def show_instance_def tag0_value_def
          public_ip_def)
  ultimately have bad: "fst (show bare_env example_controller []) = Raise KeyError"
    by (metis pyerror.exhaust)
  from wf good rows info rend nwf bad show ?thesis by simp
qed

subsection \<open>Transcripts of the image loop and of show\<close>

lemma sourcing_append [simp]: "sourcing (xs @ ys) = sourcing xs @ sourcing ys"
  by (simp add: sourcing_def)

lemma sourcing_PrintBytes [simp]: "sourcing (map PrintBytes ls) = []"
  by (simp add: sourcing_def is_sourcing_def)

lemma sourcing_Print [simp]: "sourcing (map Print ls) = []"
  by (simp add: sourcing_def is_sourcing_def)

lemma checked_append [simp]: "checked (xs @ ys) = checked xs @ checked ys"
  by (simp add: checked_def)

lemma checked_PrintBytes [simp]: "checked (map PrintBytes ls) = []"
  by (induction ls) (simp_all add: checked_def)

lemma outcome_report_append [simp]:
  "outcome_report (xs @ ys) = outcome_report xs @ outcome_report ys"
  by (simp add: outcome_report_def)

lemma outcome_report_PrintBytes [simp]: "outcome_report (map PrintBytes ls) = []"
  by (simp add: outcome_report_def reports_def)

lemma outcome_report_Print [simp]: "outcome_report (map Print ls) = []"
  by (simp add: outcome_report_def reports_def)

lemma apply_codes_append [simp]: "apply_codes (xs @ ys) = apply_codes xs @ apply_codes ys"
  by (simp add: apply_codes_def)

lemma apply_codes_outcome_report: "apply_codes (outcome_report tr) = apply_codes tr"
  by (induction tr) (auto simp: apply_codes_def outcome_report_def reports_def split: event.splits)


lemma built_in_report:
  "LogInfo built_msg \<in> set tr \<longleftrightarrow> LogInfo built_msg \<in> set (outcome_report tr)"
  by (auto simp: outcome_report_def reports_def)

lemma new_events_append:
  "take (length tr) tr3 = tr \<Longrightarrow> new_events tr (tr3 @ rest) = new_events tr tr3 @ rest"
  by (metis append_eq_conv_conj drop_append length_take min.absorb2 nat_le_linear new_events_def
        take_all_iff diff_is_0_eq' drop0 append_take_drop_id)

text \<open>
  What \<^verbatim>\<open>packer\<close> adds to a transcript: no check, no report on terraform, and of the
  decision-tree events the start of the builder only.
\<close>

lemma packer_shape:
  assumes "packer e self img tr = Some (out, tr')"
  shows "\<exists>new. tr' = tr @ new \<and> checked new = [] \<and> outcome_report new = [] \<and>
           ((out = SysExit 1 \<and> builder_command img = None \<and> sourcing new = [])
            \<or> (out = Return () \<and> (\<exists>argv. builder_command img = Some argv \<and> sourcing new = [Popen argv])))"
proof (cases "family_of img")
  case None
  with assms show ?thesis
    by (auto simp: packer_unsupported builder_command_def sourcing_def is_sourcing_def
          checked_def outcome_report_def reports_def create_msg_def built_msg_def)
next
  case (Some fam)
  obtain p target template where sup: "family_of img = Some (p, target, template)"
    using Some by (cases fam) auto
  from assms obtain tr3 where
    rd: "read_output
           (popen_packer e (tr @ [LogInfo (create_msg img)])
              [''packer'', ''build'', ''-force'', ''-only='' @ target, template])
           0
           (tr @ [LogInfo (create_msg img),
                  Popen [''packer'', ''build'', ''-force'', ''-only='' @ target, template]])
         = Some tr3" and out: "out = Return ()" and tr': "tr' = tr3"
    by (auto simp: packer_supported [OF sup] split: option.splits)
  from read_output_Some_shape [OF rd] obtain ls where
    "tr3 = (tr @ [LogInfo (create_msg img),
                  Popen [''packer'', ''build'', ''-force'', ''-only='' @ target, template]])
           @ map PrintBytes ls" by blast
  with out tr' sup show ?thesis
    by (auto simp: builder_command_def sourcing_def is_sourcing_def
          checked_def outcome_report_def reports_def create_msg_def built_msg_def)
qed

text \<open>
  One round of the loop over the images: the round extends the transcript, checks its
  image once, and its decision-tree events are one step of the tree.
\<close>

lemma build_image_shape:
  assumes "build_image e self img tr = Some (out, tr')"
  shows "\<exists>new. tr' = tr @ new \<and> checked new = [(img, aws_region (self_config self))]
           \<and> outcome_report new = []
           \<and> (\<forall>images rest.
                if out = Return ()
                then follows_tree (aws_region (self_config self)) (img # images) (sourcing new @ rest)
                     = follows_tree (aws_region (self_config self)) images rest
                else out = SysExit 1
                     \<and> follows_tree (aws_region (self_config self)) (img # images) (sourcing new))"
proof -
  define r where "r = aws_region (self_config self)"
  define tr2 where
    "tr2 = tr @ [AmiAvailable img r False,
                 LogInfo (''Image '' @ img @ '' is not available in region '' @ r),
                 LogInfo (''Checking if image '' @ img @ '' is available in other regions.'')]"
  consider (here) "ami_available e tr img r"
    | (there) found where "\<not> ami_available e tr img r"
        "ami_available_other_region e tr2 img = Some found"
    | (nowhere) "\<not> ami_available e tr img r" "ami_available_other_region e tr2 img = None"
    by (cases "ami_available_other_region e tr2 img") auto
  then show ?thesis
  proof cases
    case here
    with assms show ?thesis
      by (auto simp: build_image_def r_def Let_def checked_def outcome_report_def reports_def
            sourcing_def is_sourcing_def built_msg_def)
  next
    case there
    with assms show ?thesis
      by (auto simp: build_image_def r_def tr2_def Let_def checked_def outcome_report_def
            reports_def sourcing_def is_sourcing_def built_msg_def)
  next
    case nowhere
    define tr4 where
      "tr4 = tr2 @ [AmiAvailableOtherRegion img None,
                    LogInfo (''Image '' @ img @ '' need to be built with packer.'')]"
    from assms nowhere have "packer e self img tr4 = Some (out, tr')"
      by (simp add: build_image_def r_def tr2_def tr4_def Let_def)
    from packer_shape [OF this] obtain new where
      new: "tr' = tr4 @ new" "checked new = []" "outcome_report new = []" and
      alt: "(out = SysExit 1 \<and> builder_command img = None \<and> sourcing new = [])
            \<or> (out = Return () \<and> (\<exists>argv. builder_command img = Some argv
                                        \<and> sourcing new = [Popen argv]))"
      by blast
    have pre: "tr4 @ new = tr @ (drop (length tr) tr4 @ new)"
      by (simp add: tr4_def tr2_def)
    have c: "checked (drop (length tr) tr4 @ new) = [(img, r)]"
      using new by (simp add: tr4_def tr2_def checked_def)
    have o: "outcome_report (drop (length tr) tr4 @ new) = []"
      using new by (simp add: tr4_def tr2_def outcome_report_def reports_def built_msg_def)
    have s: "sourcing (drop (length tr) tr4 @ new)
               = [AmiAvailable img r False, AmiAvailableOtherRegion img None] @ sourcing new"
      by (simp add: tr4_def tr2_def sourcing_def is_sourcing_def)
    from alt show ?thesis
    proof
      assume "out = SysExit 1 \<and> builder_command img = None \<and> sourcing new = []"
      then show ?thesis
        using new(1) pre c o s unfolding r_def [symmetric] by (intro exI [of _ "drop (length tr) tr4 @ new"]) simp
    next
      assume "out = Return () \<and> (\<exists>argv. builder_command img = Some argv \<and> sourcing new = [Popen argv])"
      then show ?thesis
        using new(1) pre c o s unfolding r_def [symmetric] by (intro exI [of _ "drop (length tr) tr4 @ new"]) auto
    qed
  qed
qed

lemma build_images_shape:
  "build_images e self images tr = Some (out, tr') \<Longrightarrow>
   \<exists>new. tr' = tr @ new \<and> outcome_report new = []
     \<and> follows_tree (aws_region (self_config self)) images (sourcing new)
     \<and> (if out = Return ()
          then checked new = map (\<lambda>i. (i, aws_region (self_config self))) images
          else out = SysExit 1)"
proof (induction images arbitrary: tr)
  case Nil
  then show ?case by (auto simp: outcome_report_def sourcing_def checked_def)
next
  case (Cons img images)
  from Cons.prems obtain o1 tr1 where step: "build_image e self img tr = Some (o1, tr1)"
    by (auto split: option.splits)
  from build_image_shape [OF step] obtain new1 where
    new1: "tr1 = tr @ new1" "checked new1 = [(img, aws_region (self_config self))]"
      "outcome_report new1 = []" and
    tree: "\<forall>images rest.
            if o1 = Return ()
            then follows_tree (aws_region (self_config self)) (img # images) (sourcing new1 @ rest)
                 = follows_tree (aws_region (self_config self)) images rest
            else o1 = SysExit 1
                 \<and> follows_tree (aws_region (self_config self)) (img # images) (sourcing new1)"
    by blast
  have ret: "follows_tree (aws_region (self_config self)) (img # images) (sourcing new1 @ rest)
             = follows_tree (aws_region (self_config self)) images rest"
    if "o1 = Return ()" for rest
    using tree that by simp
  have ext: "o1 = SysExit 1
             \<and> follows_tree (aws_region (self_config self)) (img # images) (sourcing new1)"
    if "o1 \<noteq> Return ()"
    using tree that by simp
  show ?case
  proof (cases "o1 = Return ()")
    case True
    with Cons.prems step have "build_images e self images tr1 = Some (out, tr')"
      by simp
    from Cons.IH [OF this] obtain new2 where
      new2: "tr' = tr1 @ new2" "outcome_report new2 = []"
        "follows_tree (aws_region (self_config self)) images (sourcing new2)"
        "if out = Return ()
         then checked new2 = map (\<lambda>i. (i, aws_region (self_config self))) images
         else out = SysExit 1"
      by blast
    show ?thesis
      using new1 new2 ret [OF True, of "sourcing new2"]
      by (intro exI [of _ "new1 @ new2"]) (auto split: if_splits)
  next
    case False
    with Cons.prems step have "out = o1" "tr' = tr1"
      by (cases o1; simp)+
    with False new1 ext show ?thesis
      by (intro exI [of _ new1]) auto
  qed
qed

text \<open>
  \<^verbatim>\<open>show\<close> adds no decision-tree event and no report on terraform.
\<close>

lemma show_print_quiet:
  "outcome_report (show_print v msgs) = [] \<and> sourcing (show_print v msgs) = []
   \<and> checked (show_print v msgs) = []"
  by (simp add: show_print_def outcome_report_def reports_def sourcing_def is_sourcing_def
        checked_def comp_def)

lemma get_prelude_token_quiet:
  "get_prelude_token e p tr = (tok, tr') \<Longrightarrow>
   \<exists>new. tr' = tr @ new \<and> outcome_report new = [] \<and> sourcing new = [] \<and> checked new = []"
  by (auto simp: get_prelude_token_def Let_def outcome_report_def reports_def sourcing_def
        is_sourcing_def checked_def split: option.splits)

lemma show_quiet:
  assumes "show e self tr = (out, tr')"
  shows "\<exists>new. tr' = tr @ new \<and> outcome_report new = [] \<and> sourcing new = [] \<and> checked new = []"
proof -
  have quiet: "outcome_report (LogInfo ''[action] > show\<newline>'' # GetAllInstances k n r is # evs)
                 = outcome_report evs
               \<and> sourcing (LogInfo ''[action] > show\<newline>'' # GetAllInstances k n r is # evs)
                 = sourcing evs
               \<and> checked (LogInfo ''[action] > show\<newline>'' # GetAllInstances k n r is # evs)
                 = checked evs" for k n r "is" evs
    by (simp add: outcome_report_def reports_def sourcing_def is_sourcing_def checked_def
          built_msg_def)
  have token: "outcome_report (ReadFile p content # evs) = outcome_report evs
               \<and> sourcing (ReadFile p content # evs) = sourcing evs
               \<and> checked (ReadFile p content # evs) = checked evs
               \<and> outcome_report (LogError m # evs) = outcome_report evs
               \<and> sourcing (LogError m # evs) = sourcing evs
               \<and> checked (LogError m # evs) = checked evs" for p content m evs
    by (simp add: outcome_report_def reports_def sourcing_def is_sourcing_def checked_def)
  have nil: "outcome_report [] = [] \<and> sourcing [] = [] \<and> checked [] = []"
    by (simp add: outcome_report_def sourcing_def checked_def)
  from assms show ?thesis
    by (auto simp: show_def Let_def get_prelude_token_def quiet token nil show_print_quiet
          split: sum.splits if_splits option.splits prod.splits)
qed

text \<open>
  Every answer in the transcript of the loop is the environment's; \<^verbatim>\<open>packer\<close> asks
  nothing.
\<close>

lemma honest_append:
  "honest e hist (xs @ ys) = (honest e hist xs \<and> honest e (hist @ xs) ys)"
  by (induction xs arbitrary: hist) simp_all

lemma honest_no_answers:
  "list_all (\<lambda>ev. \<not> is_answer ev) evs \<Longrightarrow> honest e hist evs"
  by (induction evs arbitrary: hist)
     (auto simp: answer_ok_def is_answer_def split: event.splits)

lemma packer_no_answers:
  assumes "packer e self img tr = Some (out, tr')"
  shows "\<exists>new. tr' = tr @ new \<and> list_all (\<lambda>ev. \<not> is_answer ev) new"
proof (cases "family_of img")
  case None
  with assms show ?thesis
    by (auto simp: packer_unsupported is_answer_def)
next
  case (Some fam)
  obtain p target template where sup: "family_of img = Some (p, target, template)"
    using Some by (cases fam) auto
  from assms obtain tr3 where
    rd: "read_output
           (popen_packer e (tr @ [LogInfo (create_msg img)])
              [''packer'', ''build'', ''-force'', ''-only='' @ target, template])
           0
           (tr @ [LogInfo (create_msg img),
                  Popen [''packer'', ''build'', ''-force'', ''-only='' @ target, template]])
         = Some tr3" and tr': "tr' = tr3"
    by (auto simp: packer_supported [OF sup] split: option.splits)
  from read_output_Some_shape [OF rd] obtain ls where
    "tr3 = (tr @ [LogInfo (create_msg img),
                  Popen [''packer'', ''build'', ''-force'', ''-only='' @ target, template]])
           @ map PrintBytes ls" by blast
  with tr' show ?thesis
    by (auto simp: is_answer_def list_all_iff)
qed

lemma build_image_honest:
  assumes "build_image e self img tr = Some (out, tr')"
  shows "\<exists>new. tr' = tr @ new \<and> honest e tr new"
proof -
  define r where "r = aws_region (self_config self)"
  define tr2 where
    "tr2 = tr @ [AmiAvailable img r False,
                 LogInfo (''Image '' @ img @ '' is not available in region '' @ r),
                 LogInfo (''Checking if image '' @ img @ '' is available in other regions.'')]"
  consider (here) "ami_available e tr img r"
    | (there) found where "\<not> ami_available e tr img r"
        "ami_available_other_region e tr2 img = Some found"
    | (nowhere) "\<not> ami_available e tr img r" "ami_available_other_region e tr2 img = None"
    by (cases "ami_available_other_region e tr2 img") auto
  then show ?thesis
  proof cases
    case here
    with assms show ?thesis
      by (auto simp: build_image_def r_def Let_def answer_ok_def)
  next
    case there
    with assms show ?thesis
      by (auto simp: build_image_def r_def tr2_def Let_def answer_ok_def)
  next
    case nowhere
    define tr4 where
      "tr4 = tr2 @ [AmiAvailableOtherRegion img None,
                    LogInfo (''Image '' @ img @ '' need to be built with packer.'')]"
    from assms nowhere have "packer e self img tr4 = Some (out, tr')"
      by (simp add: build_image_def r_def tr2_def tr4_def Let_def)
    from packer_no_answers [OF this] obtain new where
      new: "tr' = tr4 @ new" "list_all (\<lambda>ev. \<not> is_answer ev) new"
      by blast
    have pre: "tr4 = tr @ drop (length tr) tr4"
      by (simp add: tr4_def tr2_def)
    have h4: "honest e tr (drop (length tr) tr4)"
      using nowhere by (simp add: tr4_def tr2_def answer_ok_def)
    have "honest e tr (drop (length tr) tr4 @ new)"
      using h4 honest_no_answers [OF new(2)] pre by (simp add: honest_append)
    moreover have "tr' = tr @ (drop (length tr) tr4 @ new)"
      using new(1) pre by simp
    ultimately show ?thesis by blast
  qed
qed

lemma build_images_honest:
  "build_images e self images tr = Some (out, tr') \<Longrightarrow>
   \<exists>new. tr' = tr @ new \<and> honest e tr new"
proof (induction images arbitrary: tr)
  case Nil
  then show ?case by simp
next
  case (Cons img images)
  from Cons.prems obtain o1 tr1 where step: "build_image e self img tr = Some (o1, tr1)"
    by (auto split: option.splits)
  from build_image_honest [OF step] obtain new1 where
    new1: "tr1 = tr @ new1" "honest e tr new1" by blast
  show ?case
  proof (cases "o1 = Return ()")
    case True
    with Cons.prems step have "build_images e self images tr1 = Some (out, tr')"
      by simp
    from Cons.IH [OF this] obtain new2 where "tr' = tr1 @ new2" "honest e tr1 new2"
      by blast
    with new1 show ?thesis
      by (intro exI [of _ "new1 @ new2"]) (simp add: honest_append)
  next
    case False
    with Cons.prems step have "tr' = tr1"
      by (cases o1; simp)
    with new1 show ?thesis by blast
  qed
qed

lemma build_images_single:
  "build_images e self [img] tr = build_image e self img tr"
  by (cases "build_image e self img tr") (auto split: result.splits)

lemma build_images_append:
  "build_images e self (xs @ ys) tr =
     (case build_images e self xs tr of
        None \<Rightarrow> None
      | Some (Return u, tr1) \<Rightarrow> build_images e self ys tr1
      | Some (ended, tr1) \<Rightarrow> Some (ended, tr1))"
proof (induction xs arbitrary: tr)
  case Nil
  then show ?case by simp
next
  case (Cons x xs)
  then show ?case
    by (cases "build_image e self x tr") (auto split: result.splits)
qed

text \<open>
  The loops return when every packer process ends.
\<close>

lemma packer_returns: "processes_end e \<Longrightarrow> packer e self img tr \<noteq> None"
  by (auto simp: packer_def Let_def processes_end_def read_output_returns
        split: prod.splits option.splits)

lemma build_image_returns:
  assumes "processes_end e"
  shows "build_image e self img tr \<noteq> None"
proof -
  have "build_image e self img tr = None \<Longrightarrow> \<exists>tr1. packer e self img tr1 = None"
    by (auto simp: build_image_def Let_def split: option.splits if_splits)
  with packer_returns [OF assms] show ?thesis by blast
qed

lemma build_images_returns: "processes_end e \<Longrightarrow> build_images e self images tr \<noteq> None"
proof (induction images arbitrary: tr)
  case Nil
  then show ?case by simp
next
  case (Cons img images)
  from build_image_returns [OF Cons.prems, of self img tr]
  obtain o1 tr1 where "build_image e self img tr = Some (o1, tr1)" by auto
  with Cons show ?case
    by (cases o1) auto
qed




text \<open>
  The two ways in which \<^verbatim>\<open>build\<close> ends: inside \<^verbatim>\<open>packer\<close>, with the exit of the
  process, or after the loop, with terraform apply followed by \<^verbatim>\<open>show\<close>.
\<close>

lemma build_shape:
  assumes "build e self tr = Some (out, tr')"
  shows "(\<exists>tr3. build_images e self (build_image_list (self_config self))
                  (tr @ [LogInfo ''[action] > build\<newline>'',
                         LogInfo (''Check if images are available in region ''
                                    @ aws_region (self_config self))])
                = Some (SysExit 1, tr3)
              \<and> out = SysExit 1 \<and> tr' = tr3 \<and> outcome_report (new_events tr tr') = []
              \<and> take (length tr) tr' = tr)
       \<or> (\<exists>tr3 post.
              build_images e self (build_image_list (self_config self))
                (tr @ [LogInfo ''[action] > build\<newline>'',
                       LogInfo (''Check if images are available in region ''
                                  @ aws_region (self_config self))])
                = Some (Return (), tr3)
              \<and> take (length tr) tr3 = tr
              \<and> checked (new_events tr tr3)
                  = map (\<lambda>i. (i, aws_region (self_config self))) (build_image_list (self_config self))
              \<and> outcome_report (new_events tr tr3) = []
              \<and> show e self (tr3 @ TerraformApply (terraform_apply e tr3)
                                 # (if terraform_apply e tr3 = 0 then [LogInfo built_msg] else []))
                  = (out, tr')
              \<and> tr' = tr3 @ TerraformApply (terraform_apply e tr3)
                             # (if terraform_apply e tr3 = 0 then [LogInfo built_msg] else [])
                             @ post
              \<and> checked post = [] \<and> sourcing post = [] \<and> outcome_report post = [])"
proof -
  let ?tr2 = "tr @ [LogInfo ''[action] > build\<newline>'',
                    LogInfo (''Check if images are available in region ''
                               @ aws_region (self_config self))]"
  let ?images = "build_image_list (self_config self)"
  have unfold: "build e self tr =
      (case build_images e self ?images ?tr2 of
         None \<Rightarrow> None
       | Some (Return u, tr3) \<Rightarrow>
           Some (show e self
                   (tr3 @ TerraformApply (terraform_apply e tr3)
                          # (if terraform_apply e tr3 = 0 then [LogInfo built_msg] else [])))
       | Some (ended, tr3) \<Rightarrow> Some (ended, tr3))"
    by (simp add: build_def Let_def split: option.splits prod.splits result.splits)
  from assms obtain o3 tr3 where loop: "build_images e self ?images ?tr2 = Some (o3, tr3)"
    unfolding unfold by (cases "build_images e self ?images ?tr2") auto
  from build_images_shape [OF loop] obtain new where
    new: "tr3 = ?tr2 @ new" "outcome_report new = []" and
    chk: "if o3 = Return ()
          then checked new = map (\<lambda>i. (i, aws_region (self_config self))) ?images
          else o3 = SysExit 1"
    by blast
  have ne: "new_events tr tr3 = drop (length tr) ?tr2 @ new"
    by (simp add: new_events_def new(1))
  have pre: "take (length tr) tr3 = tr"
    by (simp add: new(1))
  have o: "outcome_report (new_events tr tr3) = []"
    unfolding ne using new(2) by (simp add: outcome_report_def reports_def built_msg_def)
  show ?thesis
  proof (cases "o3 = Return ()")
    case False
    with chk have ex: "o3 = SysExit 1" by simp
    with assms loop have "out = SysExit 1" "tr' = tr3"
      unfolding unfold by simp_all
    with loop ex o pre show ?thesis
      by blast
  next
    case True
    let ?tr5 = "tr3 @ TerraformApply (terraform_apply e tr3)
                      # (if terraform_apply e tr3 = 0 then [LogInfo built_msg] else [])"
    from True assms loop have sh: "show e self ?tr5 = (out, tr')"
      unfolding unfold by simp
    from show_quiet [OF sh] obtain post where
      post: "tr' = ?tr5 @ post" "outcome_report post = []" "sourcing post = []" "checked post = []"
      by blast
    have c: "checked (new_events tr tr3)
               = map (\<lambda>i. (i, aws_region (self_config self))) ?images"
      unfolding ne using chk True by (simp add: checked_def)
    from loop True pre c o sh post show ?thesis
      by (intro disjI2 exI [of _ tr3] exI [of _ post]) simp
  qed
qed

lemma build_report:
  assumes "build e self tr = Some (out, tr')"
  shows "outcome_report (new_events tr tr') = []
       \<or> (\<exists>rc. outcome_report (new_events tr tr')
                  = TerraformApply rc # (if rc = 0 then [LogInfo built_msg] else []))"
  using build_shape [OF assms]
proof (elim disjE exE conjE)
  fix tr3
  assume "outcome_report (new_events tr tr') = []"
  then show ?thesis by simp
next
  fix tr3 post
  let ?rc = "terraform_apply e tr3"
  assume pre: "take (length tr) tr3 = tr" and o3: "outcome_report (new_events tr tr3) = []"
    and tr': "tr' = tr3 @ TerraformApply ?rc # (if ?rc = 0 then [LogInfo built_msg] else []) @ post"
    and op: "outcome_report post = []"
  have "new_events tr tr'
          = new_events tr tr3 @ TerraformApply ?rc # (if ?rc = 0 then [LogInfo built_msg] else []) @ post"
    unfolding tr' by (rule new_events_append [OF pre])
  then have "outcome_report (new_events tr tr')
               = TerraformApply ?rc # (if ?rc = 0 then [LogInfo built_msg] else [])"
    using o3 op by (simp add: outcome_report_def reports_def)
  then show ?thesis by blast
qed

text \<open>
  The example range, run.
\<close>

lemma example_processes_end: "processes_end example_env"
proof -
  have "snd (popen_packer example_env h argv 2) \<noteq> None" for h argv
    by (simp add: example_env_def example_process_def)
  then show ?thesis
    unfolding processes_end_def by blast
qed

lemma example_packer:
  "packer example_env self ''linux-v2-0-0'' tr =
     Some (Return (),
           tr @ [LogInfo (create_msg ''linux-v2-0-0''),
                 Popen [''packer'', ''build'', ''-force'', ''-only=amazon-ebs.ubuntu-18-04'',
                        ''packer/linux_server/linux-ubuntu-18-04.pkr.hcl''],
                 PrintBytes ''==> amazon-ebs: Creating AMI''])"
proof -
  have fam: "family_of ''linux-v2-0-0''
       = Some (''linux'', ''amazon-ebs.ubuntu-18-04'', ''packer/linux_server/linux-ubuntu-18-04.pkr.hcl'')"
    by (simp add: family_of_def families_def startswith_def)
  have st: "streamed example_process 0 2 = [''==> amazon-ebs: Creating AMI'']"
    by (simp add: streamed_def example_process_def upt_conv_Cons strip_def isspace_def)
  have rd: "read_output example_process 0 tr0 = Some (tr0 @ map PrintBytes (streamed example_process 0 2))"
    for tr0
    by (rule read_output_exits) (simp_all add: example_process_def)
  show ?thesis
    by (simp add: packer_supported [OF fam] example_env_def rd st)
qed

text \<open>
  C4. \<^verbatim>\<open>packer\<close> selects the builder by the prefix of the image name and starts it, but
  it does not stream the builder's output line by line to the end: the loop polls after
  each \<^verbatim>\<open>readline\<close> and leaves before printing when the process has ended. A builder
  that has written \<open>Build finished.\<close> and has ended at the first poll has none of its
  output printed, and the builder of the example range loses its last line.
\<close>

theorem packer_drops_final_output:
  "ended_process 0 = (''Build finished.\<newline>'', Some 0)
   \<and> packer ended_env example_controller ''linux-v2-0-0'' [] =
       Some (Return (),
             [LogInfo ''Create golden image for linux-v2-0-0. This can take up to 30 minutes.\<newline>'',
              Popen [''packer'', ''build'', ''-force'', ''-only=amazon-ebs.ubuntu-18-04'',
                     ''packer/linux_server/linux-ubuntu-18-04.pkr.hcl'']])
   \<and> map example_process [0, 1, 2] =
       [(''==> amazon-ebs: Creating AMI\<newline>'', None), ([], None),
        (''Build finished.\<newline>'', Some 0)]
   \<and> packer example_env example_controller ''linux-v2-0-0'' [] =
       Some (Return (),
             [LogInfo ''Create golden image for linux-v2-0-0. This can take up to 30 minutes.\<newline>'',
              Popen [''packer'', ''build'', ''-force'', ''-only=amazon-ebs.ubuntu-18-04'',
                     ''packer/linux_server/linux-ubuntu-18-04.pkr.hcl''],
              PrintBytes ''==> amazon-ebs: Creating AMI''])"
proof -
  have fam: "family_of ''linux-v2-0-0''
       = Some (''linux'', ''amazon-ebs.ubuntu-18-04'', ''packer/linux_server/linux-ubuntu-18-04.pkr.hcl'')"
    by (simp add: family_of_def families_def startswith_def)
  have rd: "read_output ended_process 0 tr0 = Some tr0" for tr0
    by (rule read_output_ended) (simp add: ended_process_def)
  have ended: "packer ended_env example_controller ''linux-v2-0-0'' [] =
       Some (Return (),
             [LogInfo ''Create golden image for linux-v2-0-0. This can take up to 30 minutes.\<newline>'',
              Popen [''packer'', ''build'', ''-force'', ''-only=amazon-ebs.ubuntu-18-04'',
                     ''packer/linux_server/linux-ubuntu-18-04.pkr.hcl'']])"
    by (simp add: packer_supported [OF fam] ended_env_def rd create_msg_def)
  have rounds: "map example_process [0, 1, 2] =
       [(''==> amazon-ebs: Creating AMI\<newline>'', None), ([], None),
        (''Build finished.\<newline>'', Some 0)]"
    by (simp add: example_process_def)
  from ended rounds example_packer [of example_controller "[]"] show ?thesis
    by (simp add: ended_process_def create_msg_def)
qed

lemma example_run:
  "build_images example_env example_controller example_images tr
     = Some (Return (), tr @ example_steps)"
proof -
  have r: "aws_region (self_config example_controller) = ''eu-central-1''"
    by (simp add: example_controller_def example_config_def)
  have a: "ami_available example_env h img reg
             = (img = ''splunk-v2-0-0'' \<or> img = ''nginx-web-proxy-v2-0-0'')" for h img reg
    by (simp add: example_env_def)
  have b: "ami_available_other_region example_env h img
             = (if img = ''windows-2016-v2-0-0''
                then Some \<lparr>region = ''us-west-2'', image_id = ''ami-0123456789''\<rparr> else None)"
    for h img
    by (simp add: example_env_def)
  have s1: "build_image example_env example_controller ''splunk-v2-0-0'' h
              = Some (Return (), h @ take 2 example_steps)" for h
    by (simp add: build_image_def r a b Let_def example_steps_def)
  have s2: "build_image example_env example_controller ''windows-2016-v2-0-0'' h
              = Some (Return (), h @ take 6 (drop 2 example_steps))" for h
    by (simp add: build_image_def r a b Let_def example_steps_def)
  have s3: "build_image example_env example_controller ''linux-v2-0-0'' h
              = Some (Return (), h @ take 8 (drop 8 example_steps))" for h
    by (simp add: build_image_def r a b Let_def example_steps_def example_packer create_msg_def)
  have s4: "build_image example_env example_controller ''nginx-web-proxy-v2-0-0'' h
              = Some (Return (), h @ drop 16 example_steps)" for h
    by (simp add: build_image_def r a b Let_def example_steps_def)
  have whole: "take 2 example_steps @ take 6 (drop 2 example_steps)
                 @ take 8 (drop 8 example_steps) @ drop 16 example_steps = example_steps"
    by (simp add: example_steps_def)
  have "build_images example_env example_controller example_images tr
          = Some (Return (), tr @ (take 2 example_steps @ take 6 (drop 2 example_steps)
                 @ take 8 (drop 8 example_steps) @ drop 16 example_steps))"
    by (simp add: example_images_def s1 s2 s3 s4)
  then show ?thesis
    by (simp only: whole)
qed

lemma example_show_run:
  "show example_env example_controller tr = (Return (), tr @ example_show)"
  by (simp add: show_def Let_def example_env_def example_controller_def example_config_def
        example_instances_def show_instance_def tag0_value_def public_ip_def access_message_def
        startswith_def ssh_line_def login_lines_def show_print_def example_show_def)

lemma example_image_list: "build_image_list (self_config example_controller) = example_images"
  by (simp add: build_image_list_def example_controller_def example_config_def example_images_def)

lemma example_build:
  "build example_env example_controller [] = Some (Return (), example_build_transcript)"
proof -
  have rc: "terraform_apply example_env h = 0" for h
    by (simp add: example_env_def)
  have r: "aws_region (self_config example_controller) = ''eu-central-1''"
    by (simp add: example_controller_def example_config_def)
  show ?thesis
    by (simp add: build_def Let_def example_image_list example_run rc r example_show_run
          example_build_transcript_def)
qed

subsection \<open>build and destroy\<close>

text \<open>
  C1. The loop over the images follows the decision tree. On one image it first checks the
  image in the configured region; an image available there triggers nothing else; for an
  image that is not available it queries the other regions first, then copies an image
  found there into the configured region, from where it was found, without starting
  packer, and hands an image found nowhere to the packer helper. A loop over a list is
  the loop over its front continued by the loop over its rest, and ends where packer
  exits. The loop produces a result whenever every packer process ends, and in every run
  that ends the transcript extends the one given, its answers are those of the
  environment, and its decision-tree events follow the tree image by image.
\<close>

theorem build_follows_decision_tree:
  "let r = aws_region (self_config self);
       asked = tr @ [AmiAvailable img r False,
                     LogInfo (''Image '' @ img @ '' is not available in region '' @ r),
                     LogInfo (''Checking if image '' @ img @ '' is available in other regions.'')]
   in build_images e self [img] tr =
        (if ami_available e tr img r
         then Some (Return (),
                    tr @ [AmiAvailable img r True,
                          LogInfo (''Image '' @ img @ '' is available in region '' @ r)])
         else case ami_available_other_region e asked img of
                Some found \<Rightarrow>
                  Some (Return (),
                        asked @ [AmiAvailableOtherRegion img (Some found),
                                 LogInfo (''Found image '' @ img @ '' in region '' @ region found
                                            @ ''. Copy it to region '' @ r),
                                 CopyImage img (image_id found) (region found) r])
              | None \<Rightarrow>
                  packer e self img
                    (asked @ [AmiAvailableOtherRegion img None,
                              LogInfo (''Image '' @ img @ '' need to be built with packer.'')]))
    \<and> build_images e self (xs @ ys) tr =
        (case build_images e self xs tr of
           None \<Rightarrow> None
         | Some (Return u, tr1) \<Rightarrow> build_images e self ys tr1
         | Some (ended, tr1) \<Rightarrow> Some (ended, tr1))
    \<and> (processes_end e \<longrightarrow> build_images e self images tr \<noteq> None)
    \<and> (build_images e self images tr = Some (out, tr') \<longrightarrow>
          take (length tr) tr' = tr
        \<and> honest e tr (new_events tr tr')
        \<and> follows_tree r images (sourcing (new_events tr tr')))"
proof -
  have one: "build_images e self [img] tr =
        (if ami_available e tr img (aws_region (self_config self))
         then Some (Return (),
                    tr @ [AmiAvailable img (aws_region (self_config self)) True,
                          LogInfo (''Image '' @ img @ '' is available in region ''
                                     @ aws_region (self_config self))])
         else case ami_available_other_region e
                     (tr @ [AmiAvailable img (aws_region (self_config self)) False,
                            LogInfo (''Image '' @ img @ '' is not available in region ''
                                       @ aws_region (self_config self)),
                            LogInfo (''Checking if image '' @ img
                                       @ '' is available in other regions.'')]) img of
                Some found \<Rightarrow>
                  Some (Return (),
                        (tr @ [AmiAvailable img (aws_region (self_config self)) False,
                               LogInfo (''Image '' @ img @ '' is not available in region ''
                                          @ aws_region (self_config self)),
                               LogInfo (''Checking if image '' @ img
                                          @ '' is available in other regions.'')])
                        @ [AmiAvailableOtherRegion img (Some found),
                           LogInfo (''Found image '' @ img @ '' in region '' @ region found
                                      @ ''. Copy it to region '' @ aws_region (self_config self)),
                           CopyImage img (image_id found) (region found)
                             (aws_region (self_config self))])
              | None \<Rightarrow>
                  packer e self img
                    ((tr @ [AmiAvailable img (aws_region (self_config self)) False,
                            LogInfo (''Image '' @ img @ '' is not available in region ''
                                       @ aws_region (self_config self)),
                            LogInfo (''Checking if image '' @ img
                                       @ '' is available in other regions.'')])
                     @ [AmiAvailableOtherRegion img None,
                        LogInfo (''Image '' @ img @ '' need to be built with packer.'')]))"
    unfolding build_images_single
    by (simp add: build_image_def Let_def split: option.splits)
  have run: "take (length tr) tr' = tr \<and> honest e tr (new_events tr tr')
             \<and> follows_tree (aws_region (self_config self)) images (sourcing (new_events tr tr'))"
    if "build_images e self images tr = Some (out, tr')"
    using build_images_shape [OF that] build_images_honest [OF that]
    by (auto simp: new_events_def)
  show ?thesis
    unfolding Let_def
    using one build_images_append [of e self xs ys tr] build_images_returns [of e self images tr] run
    by blast
qed

theorem build_follows_decision_tree_witness:
  "processes_end example_env
   \<and> build_images example_env example_controller [''splunk-v2-0-0''] [] =
       Some (Return (),
             [AmiAvailable ''splunk-v2-0-0'' ''eu-central-1'' True,
              LogInfo ''Image splunk-v2-0-0 is available in region eu-central-1''])
   \<and> build_images example_env example_controller [''windows-2016-v2-0-0''] [] =
       Some (Return (),
             [AmiAvailable ''windows-2016-v2-0-0'' ''eu-central-1'' False,
              LogInfo ''Image windows-2016-v2-0-0 is not available in region eu-central-1'',
              LogInfo ''Checking if image windows-2016-v2-0-0 is available in other regions.'',
              AmiAvailableOtherRegion ''windows-2016-v2-0-0''
                (Some \<lparr>region = ''us-west-2'', image_id = ''ami-0123456789''\<rparr>),
              LogInfo ''Found image windows-2016-v2-0-0 in region us-west-2. Copy it to region eu-central-1'',
              CopyImage ''windows-2016-v2-0-0'' ''ami-0123456789'' ''us-west-2'' ''eu-central-1''])
   \<and> build_images example_env example_controller [''linux-v2-0-0''] [] =
       packer example_env example_controller ''linux-v2-0-0''
         [AmiAvailable ''linux-v2-0-0'' ''eu-central-1'' False,
          LogInfo ''Image linux-v2-0-0 is not available in region eu-central-1'',
          LogInfo ''Checking if image linux-v2-0-0 is available in other regions.'',
          AmiAvailableOtherRegion ''linux-v2-0-0'' None,
          LogInfo ''Image linux-v2-0-0 need to be built with packer.'']
   \<and> build_images example_env example_controller example_images [] = Some (Return (), example_steps)
   \<and> honest example_env [] (new_events [] example_steps)
   \<and> follows_tree ''eu-central-1'' example_images (sourcing (new_events [] example_steps))
   \<and> sourcing (new_events [] example_steps) =
       [AmiAvailable ''splunk-v2-0-0'' ''eu-central-1'' True,
        AmiAvailable ''windows-2016-v2-0-0'' ''eu-central-1'' False,
        AmiAvailableOtherRegion ''windows-2016-v2-0-0''
          (Some \<lparr>region = ''us-west-2'', image_id = ''ami-0123456789''\<rparr>),
        CopyImage ''windows-2016-v2-0-0'' ''ami-0123456789'' ''us-west-2'' ''eu-central-1'',
        AmiAvailable ''linux-v2-0-0'' ''eu-central-1'' False,
        AmiAvailableOtherRegion ''linux-v2-0-0'' None,
        Popen [''packer'', ''build'', ''-force'', ''-only=amazon-ebs.ubuntu-18-04'',
               ''packer/linux_server/linux-ubuntu-18-04.pkr.hcl''],
        AmiAvailable ''nginx-web-proxy-v2-0-0'' ''eu-central-1'' True]"
proof -
  have run: "build_images example_env example_controller example_images []
               = Some (Return (), example_steps)"
    using example_run [of "[]"] by simp
  have r: "aws_region (self_config example_controller) = ''eu-central-1''"
    by (simp add: example_controller_def example_config_def)
  have a: "ami_available example_env h img reg
             = (img = ''splunk-v2-0-0'' \<or> img = ''nginx-web-proxy-v2-0-0'')" for h img reg
    by (simp add: example_env_def)
  have b: "ami_available_other_region example_env h img
             = (if img = ''windows-2016-v2-0-0''
                then Some \<lparr>region = ''us-west-2'', image_id = ''ami-0123456789''\<rparr> else None)"
    for h img
    by (simp add: example_env_def)
  have s: "sourcing (new_events [] example_steps) =
       [AmiAvailable ''splunk-v2-0-0'' ''eu-central-1'' True,
        AmiAvailable ''windows-2016-v2-0-0'' ''eu-central-1'' False,
        AmiAvailableOtherRegion ''windows-2016-v2-0-0''
          (Some \<lparr>region = ''us-west-2'', image_id = ''ami-0123456789''\<rparr>),
        CopyImage ''windows-2016-v2-0-0'' ''ami-0123456789'' ''us-west-2'' ''eu-central-1'',
        AmiAvailable ''linux-v2-0-0'' ''eu-central-1'' False,
        AmiAvailableOtherRegion ''linux-v2-0-0'' None,
        Popen [''packer'', ''build'', ''-force'', ''-only=amazon-ebs.ubuntu-18-04'',
               ''packer/linux_server/linux-ubuntu-18-04.pkr.hcl''],
        AmiAvailable ''nginx-web-proxy-v2-0-0'' ''eu-central-1'' True]"
    by (simp add: sourcing_def is_sourcing_def new_events_def example_steps_def)
  have one: "build_images example_env example_controller [''splunk-v2-0-0''] [] =
       Some (Return (),
             [AmiAvailable ''splunk-v2-0-0'' ''eu-central-1'' True,
              LogInfo ''Image splunk-v2-0-0 is available in region eu-central-1''])"
    using build_follows_decision_tree
            [where e = example_env and self = example_controller and tr = "[]"
               and img = "''splunk-v2-0-0''" and xs = "[]" and ys = "[]" and images = "[]"
               and out = "Return ()" and tr' = "[]"]
    by (simp add: Let_def r a b)
  have two: "build_images example_env example_controller [''windows-2016-v2-0-0''] [] =
       Some (Return (),
             [AmiAvailable ''windows-2016-v2-0-0'' ''eu-central-1'' False,
              LogInfo ''Image windows-2016-v2-0-0 is not available in region eu-central-1'',
              LogInfo ''Checking if image windows-2016-v2-0-0 is available in other regions.'',
              AmiAvailableOtherRegion ''windows-2016-v2-0-0''
                (Some \<lparr>region = ''us-west-2'', image_id = ''ami-0123456789''\<rparr>),
              LogInfo ''Found image windows-2016-v2-0-0 in region us-west-2. Copy it to region eu-central-1'',
              CopyImage ''windows-2016-v2-0-0'' ''ami-0123456789'' ''us-west-2'' ''eu-central-1''])"
    using build_follows_decision_tree
            [where e = example_env and self = example_controller and tr = "[]"
               and img = "''windows-2016-v2-0-0''" and xs = "[]" and ys = "[]" and images = "[]"
               and out = "Return ()" and tr' = "[]"]
    by (simp add: Let_def r a b)
  have three: "build_images example_env example_controller [''linux-v2-0-0''] [] =
       packer example_env example_controller ''linux-v2-0-0''
         [AmiAvailable ''linux-v2-0-0'' ''eu-central-1'' False,
          LogInfo ''Image linux-v2-0-0 is not available in region eu-central-1'',
          LogInfo ''Checking if image linux-v2-0-0 is available in other regions.'',
          AmiAvailableOtherRegion ''linux-v2-0-0'' None,
          LogInfo ''Image linux-v2-0-0 need to be built with packer.'']"
    using build_follows_decision_tree
            [where e = example_env and self = example_controller and tr = "[]"
               and img = "''linux-v2-0-0''" and xs = "[]" and ys = "[]" and images = "[]"
               and out = "Return ()" and tr' = "[]"]
    by (simp add: Let_def r a b)
  have whole: "take (length []) example_steps = []
        \<and> honest example_env [] (new_events [] example_steps)
        \<and> follows_tree ''eu-central-1'' example_images (sourcing (new_events [] example_steps))"
    using build_follows_decision_tree
            [where e = example_env and self = example_controller and tr = "[]"
               and img = "''splunk-v2-0-0''" and xs = "[]" and ys = "[]"
               and images = example_images and out = "Return ()" and tr' = example_steps,
             unfolded Let_def, THEN conjunct2, THEN conjunct2, THEN conjunct2]
      run
    by (simp add: r)
  from example_processes_end one two three run whole s show ?thesis
    by simp
qed



text \<open>
  C10. \<^verbatim>\<open>destroy\<close> logs its success message after the terraform destroy call
  whatever return code the call yields. \<^verbatim>\<open>build\<close> calls terraform apply at most once
  and logs its success message exactly when the call was made and returned 0.
\<close>

theorem destroy_reports_success_always:
  "let d = tr @ [LogInfo ''[action] > destroy\<newline>''];
       return_code = terraform_destroy e d
   in destroy e self tr = (Return (), d @ [TerraformDestroy return_code, LogInfo destroyed_msg])
    \<and> (build e self tr = Some (out, tr') \<longrightarrow>
         length (apply_codes (new_events tr tr')) \<le> 1
         \<and> (LogInfo built_msg \<in> set (new_events tr tr'))
             = (apply_codes (new_events tr tr') = [0]))"
proof -
  have d: "destroy e self tr =
             (Return (),
              (tr @ [LogInfo ''[action] > destroy\<newline>''])
                @ [TerraformDestroy (terraform_destroy e (tr @ [LogInfo ''[action] > destroy\<newline>''])),
                   LogInfo destroyed_msg])"
    by (simp add: destroy_def Let_def destroyed_msg_def)
  have b: "length (apply_codes (new_events tr tr')) \<le> 1
         \<and> (LogInfo built_msg \<in> set (new_events tr tr'))
             = (apply_codes (new_events tr tr') = [0])"
    if "build e self tr = Some (out, tr')"
  proof -
    have codes: "apply_codes [] = []" "apply_codes (TerraformApply rc # evs) = rc # apply_codes evs"
      "apply_codes (LogInfo s # evs) = apply_codes evs" for rc evs s
      by (simp_all add: apply_codes_def)
    from build_report [OF that] show ?thesis
    proof (elim disjE exE)
      assume "outcome_report (new_events tr tr') = []"
      then show ?thesis
        using apply_codes_outcome_report [of "new_events tr tr'", symmetric]
          built_in_report [of "new_events tr tr'"]
        by (simp add: codes)
    next
      fix rc
      assume "outcome_report (new_events tr tr')
                = TerraformApply rc # (if rc = 0 then [LogInfo built_msg] else [])"
      then show ?thesis
        using apply_codes_outcome_report [of "new_events tr tr'", symmetric]
          built_in_report [of "new_events tr tr'"]
        by (simp add: codes)
    qed
  qed
  from d b show ?thesis
    by (simp only: Let_def) blast
qed

theorem destroy_reports_success_always_witness:
  "destroy example_env example_controller [] =
     (Return (), [LogInfo ''[action] > destroy\<newline>'', TerraformDestroy 1, LogInfo destroyed_msg])
   \<and> build example_env example_controller [] = Some (Return (), example_build_transcript)
   \<and> apply_codes (new_events [] example_build_transcript) = [0]
   \<and> LogInfo built_msg \<in> set (new_events [] example_build_transcript)"
proof -
  have rc: "terraform_destroy example_env h = 1" for h
    by (simp add: example_env_def)
  have codes: "apply_codes (new_events [] example_build_transcript) = [0]"
    by (simp add: apply_codes_def new_events_def example_build_transcript_def example_steps_def
          example_show_def)
  from destroy_reports_success_always
         [where e = example_env and self = example_controller and tr = "[]"
            and out = "Return ()" and tr' = example_build_transcript]
       example_build rc codes
  show ?thesis
    by (simp add: Let_def)
qed

end
